theory Spec2Isabelle
  imports Main "HOL-Library.Sublist"
begin

section \<open>Python strings\<close>

text \<open>
  A Python \<open>str\<close> is a sequence of Unicode code points. The code below depends on two
  characters outside ASCII (the non-breaking space U+00A0 and the left double quotation
  mark U+201C) and on Python's Unicode notion of whitespace, so a string is modelled as the
  list of its code points.
\<close>

type_synonym pystr = "nat list"

definition ascii :: "string \<Rightarrow> pystr" where
  "ascii s = map of_char s"

text \<open>
  \<open>needle in text\<close>: substring test. It is the same test for any type of characters,
  which the proofs use to compare ASCII literals as written.
\<close>

fun py_in :: "'a list \<Rightarrow> 'a list \<Rightarrow> bool" where
  "py_in needle [] = (needle = [])"
| "py_in needle (c # cs) = (prefix needle (c # cs) \<or> py_in needle cs)"

text \<open>\<open>s.startswith(p)\<close>.\<close>

definition py_startswith :: "pystr \<Rightarrow> pystr \<Rightarrow> bool" where
  "py_startswith s p = prefix p s"

text \<open>
  \<open>s.find(sub)\<close>: the lowest index at which \<open>sub\<close> occurs in \<open>s\<close>, and \<open>-1\<close> when it
  does not occur.
\<close>

fun py_find_from :: "nat \<Rightarrow> pystr \<Rightarrow> pystr \<Rightarrow> int" where
  "py_find_from i [] sub = (if sub = [] then int i else - 1)"
| "py_find_from i (c # cs) sub =
     (if prefix sub (c # cs) then int i else py_find_from (Suc i) cs sub)"

definition py_find :: "pystr \<Rightarrow> pystr \<Rightarrow> int" where
  "py_find s sub = py_find_from 0 s sub"

text \<open>\<open>s[i:]\<close>: a negative index counts from the end, and the start is clamped to the string.\<close>

definition py_slice_from :: "pystr \<Rightarrow> int \<Rightarrow> pystr" where
  "py_slice_from s i =
     (if i < 0 then drop (nat (int (length s) + i)) s else drop (nat i) s)"

text \<open>
  \<open>s.replace(old, new)\<close>: every non-overlapping occurrence of \<open>old\<close>, found from the left,
  is replaced by \<open>new\<close>. For the empty \<open>old\<close> Python inserts \<open>new\<close> before every character
  and at the end.
\<close>

function py_replace_scan :: "pystr \<Rightarrow> pystr \<Rightarrow> pystr \<Rightarrow> pystr" where
  "py_replace_scan [] old new = []"
| "py_replace_scan (c # cs) old new =
     (if old \<noteq> [] \<and> prefix old (c # cs)
      then new @ py_replace_scan (drop (length old) (c # cs)) old new
      else c # py_replace_scan cs old new)"
  by pat_completeness auto
termination
  by (relation "measure (\<lambda>(s, old, new). length s)") auto

definition py_replace :: "pystr \<Rightarrow> pystr \<Rightarrow> pystr \<Rightarrow> pystr" where
  "py_replace s old new =
     (if old = [] then new @ concat (map (\<lambda>c. c # new) s) else py_replace_scan s old new)"

text \<open>
  \<open>c.isspace()\<close> for a single code point, as CPython's Unicode database has it: the ASCII
  controls TAB..CR and FS..US, the space, NEL, the non-breaking space and the Unicode space
  separators and line and paragraph separators.
\<close>

definition py_isspace :: "nat \<Rightarrow> bool" where
  "py_isspace c \<longleftrightarrow>
     (9 \<le> c \<and> c \<le> 13) \<or> (28 \<le> c \<and> c \<le> 32) \<or> c = 133 \<or> c = 160 \<or> c = 5760 \<or>
     (8192 \<le> c \<and> c \<le> 8202) \<or> c = 8232 \<or> c = 8233 \<or> c = 8239 \<or> c = 8287 \<or> c = 12288"

text \<open>\<open>s.strip()\<close>: leading and trailing whitespace removed.\<close>

definition py_strip :: "pystr \<Rightarrow> pystr" where
  "py_strip s = rev (dropWhile py_isspace (rev (dropWhile py_isspace s)))"

text \<open>\<open>str(i)\<close> for a non-negative integer: its decimal digits, most significant first.\<close>

fun py_str_nat :: "nat \<Rightarrow> pystr" where
  "py_str_nat n = (if n < 10 then [48 + n] else py_str_nat (n div 10) @ [48 + n mod 10])"

declare py_str_nat.simps [simp del]

section \<open>Documents\<close>

text \<open>
  The document library hands the tools an ordered sequence of paragraph objects. The tools
  read and assign only the \<open>text\<close> attribute; \<open>pelem\<close> stands for the paragraph object
  itself (the element of the document it wraps), which no tool touches. A text assigned to
  a paragraph is the text read from it afterwards. Loading the document from its path is
  the library's part and comes before everything modelled here.
\<close>

record para =
  pelem :: nat
  ptext :: pystr

type_synonym document = "para list"

datatype error = ValueError pystr | OSError

datatype outcome = Returned | Raised error

section \<open>The template rewrite engine (tools/update_contract_template.py)\<close>

text \<open>
  \<open>replace_paragraph_contains\<close>: the loop returns at the first paragraph whose text
  contains the needle, after assigning the replacement to it; \<open>None\<close> is the loop running
  to its end. The \<open>ValueError\<close> carries the needle (the source formats it into the message).
\<close>

fun replace_paragraph_contains_loop :: "document \<Rightarrow> pystr \<Rightarrow> pystr \<Rightarrow> document option" where
  "replace_paragraph_contains_loop [] needle replacement = None"
| "replace_paragraph_contains_loop (p # ps) needle replacement =
     (if py_in needle (ptext p) then Some (p\<lparr>ptext := replacement\<rparr> # ps)
      else map_option ((#) p) (replace_paragraph_contains_loop ps needle replacement))"

definition replace_paragraph_contains ::
    "document \<Rightarrow> pystr \<Rightarrow> pystr \<Rightarrow> outcome \<times> document" where
  "replace_paragraph_contains doc needle replacement =
     (case replace_paragraph_contains_loop doc needle replacement of
        Some doc' \<Rightarrow> (Returned, doc')
      | None \<Rightarrow> (Raised (ValueError needle), doc))"

fun replace_text_in_paragraph_loop :: "document \<Rightarrow> pystr \<Rightarrow> pystr \<Rightarrow> document" where
  "replace_text_in_paragraph_loop [] needle replacement = []"
| "replace_text_in_paragraph_loop (p # ps) needle replacement =
     (if py_in needle (ptext p)
      then p\<lparr>ptext := py_replace (ptext p) needle replacement\<rparr>
      else p) # replace_text_in_paragraph_loop ps needle replacement"

definition replace_text_in_paragraph ::
    "document \<Rightarrow> pystr \<Rightarrow> pystr \<Rightarrow> outcome \<times> document" where
  "replace_text_in_paragraph doc needle replacement =
     (Returned, replace_text_in_paragraph_loop doc needle replacement)"

text \<open>
  The body of \<open>main\<close> is a sequence of calls of the two functions above, then the
  normalization loop, then the save. A call is the function with its two string arguments;
  an exception ends the sequence at the call that raised it.
\<close>

datatype call =
    Replace_paragraph_contains pystr pystr
  | Replace_text_in_paragraph pystr pystr

fun run_call :: "call \<Rightarrow> document \<Rightarrow> outcome \<times> document" where
  "run_call (Replace_paragraph_contains needle replacement) doc =
     replace_paragraph_contains doc needle replacement"
| "run_call (Replace_text_in_paragraph needle replacement) doc =
     replace_text_in_paragraph doc needle replacement"

fun run_calls :: "call list \<Rightarrow> document \<Rightarrow> outcome \<times> document" where
  "run_calls [] doc = (Returned, doc)"
| "run_calls (c # cs) doc =
     (case run_call c doc of
        (Returned, doc') \<Rightarrow> run_calls cs doc'
      | (Raised e, doc') \<Rightarrow> (Raised e, doc'))"

text \<open>
  The replacement texts of the whole-paragraph calls of \<open>main\<close>, each named after the
  clause it templates. A double quote inside a text is written \<open>CHR 0x22\<close>.
\<close>

definition agreement_dated_text :: pystr where
  "agreement_dated_text =
     ascii ''This Agreement dated {agreementDate} is between (Buyer: {buyerName}, {buyerFullAddress}, {buyerPhone}, {buyerEmail}) herein referred to as Buyer and {breederName} of {kennelName} herein referred to as Breeder.''"

definition consideration_text :: pystr where
  "consideration_text =
     ascii ''In Consideration of the total sum of {salePrice} ({salePriceWords}) and the mutual promises contained herein, Breeder has agreed to sell, and Buyer has agreed to purchase {puppyCount} ({maleCount} male, {femaleCount} female) American Bully puppy.''"

definition born_on_text :: pystr where
  "born_on_text =
     ascii ''Born on {puppyDOBLong}''"

definition sire_text :: pystr where
  "sire_text =
     ascii ''Sire: {sireName}''"

definition dam_text :: pystr where
  "dam_text =
     ascii ''Dam: {damName}''"

definition pet_sale_text :: pystr where
  "pet_sale_text =
     ascii ''{#isPet}The puppy is sold as a pet, with no registration, and must be spayed/neutered at no earlier than 18 months of age no later than two years of age (as early spay/neuter can be detrimental to the dogs overall health and wellness).{/isPet}''"

definition full_rights_text :: pystr where
  "full_rights_text =
     ascii ''{#isFullRights}The puppy is sold with breeding rights, or '' @ [8220] @ ascii (''Full Rights'' @ [CHR 0x22] @ '' registration. Buyer will make a good faith effort to show the dog or allow the dog to be shown by the Breeder, to its ABKC and UKC Championship.{/isFullRights}'')"

definition no_registration_text :: pystr where
  "no_registration_text =
     ascii (''{#isPet}If '' @ [CHR 0x22] @ ''No Registration'' @ [CHR 0x22] @ '' has been selected, this puppy is being sold as pet quality only, intended for companionship with no guarantees as to breeding soundness, show-ability, work ability, trainability, temperament or size at maturity. The Buyer agrees to NO BREEDING of this dog (accidental or intentional).  Buyer is to have the dog altered (Spay/Neuter/Vasectomy/Hysterectomy) by the age of 2 years old (24 months) but no earlier than 18 months of age.{/isPet}'')"

definition buyer_affirms_text :: pystr where
  "buyer_affirms_text =
     ascii (''{#isPet}The Buyer affirms that their purchase is for a '' @ [CHR 0x22] @ ''pet home'' @ [CHR 0x22] @ '' only and not for breeding purposes. If the dog produces a litter without the knowledge and written consent of the Breeder, the Breeder will be entitled to compensation in the amount of $5,000 (Five Thousand Dollars and no Cents) for breach of contract terms. The Buyer herein agrees to pay the Breeder an additional $2,000 (Two Thousand Dollars and no cents) per puppy produced (dead or alive) from the whelping no later than 30 days after the birth of the unwarranted breeding.{/isPet}'')"

definition health_guarantee_text :: pystr where
  "health_guarantee_text =
     ascii ''{#isPet}The General Health Guarantee also becomes null and void if spay/neuter contract is violated.{/isPet}''"

definition signed_on_text :: pystr where
  "signed_on_text =
     ascii ''Signed on {signingDate}''"

definition notary_text :: pystr where
  "notary_text =
     ascii ''On this {signingDate}, before me, the undersigned, a Notary Public in and for said State, personally appeared _____________________, personally known to me or proved to me on the basis of satisfactory evidence to be the individual whose name is subscribed to the within Instrument and acknowledged to me that s/he/they executed the same in her/his/their capacity, and that by her/his/their signature on the instrument, the individuals, or the person upon behalf of which the individuals acted, executed the instrument.''"

definition entered_into_text :: pystr where
  "entered_into_text =
     ascii ''This Agreement is made and entered into this {agreementDate}''"

definition by_and_between_text :: pystr where
  "by_and_between_text =
     ascii ''By and between {breederName} (Breeder) and {buyerName} (Buyer),''"

definition purpose_text :: pystr where
  "purpose_text =
     ascii ''For the purpose of setting forth the terms and conditions of purchase by the Buyer of a Purebred American Bully from the litter born on {puppyDOBLong}. Out of {sireName} (Sire), and {damName} (Dam). For {salePrice} the Breeder agrees to sell and buyer agrees to purchase a {femaleCount} female, {maleCount} male companion puppy from the litter described above subject to the following terms.''"

definition main_calls :: "call list" where
  "main_calls =
    [
     Replace_paragraph_contains (ascii ''This Agreement dated'') agreement_dated_text,
     Replace_paragraph_contains (ascii ''In Consideration of the total sum'') consideration_text,
     Replace_paragraph_contains (ascii ''Born on'') born_on_text,
     Replace_paragraph_contains (ascii ''Sire:'') sire_text,
     Replace_paragraph_contains (ascii ''Dam:'') dam_text,
     Replace_paragraph_contains (ascii ''The puppy is sold as a pet'') pet_sale_text,
     Replace_paragraph_contains (ascii ''The puppy is sold with breeding rights'') full_rights_text,
     Replace_paragraph_contains (ascii ''If No Registration'') no_registration_text,
     Replace_paragraph_contains (ascii ''The Buyer affirms that their purchase'') buyer_affirms_text,
     Replace_paragraph_contains (ascii ''The General Health Guarantee'') health_guarantee_text,
     Replace_text_in_paragraph
       (ascii ''State of ________, County of ________'')
       (ascii ''State of {state}, County of {county}''),
     Replace_text_in_paragraph
       (ascii ''State of ___________ County of ____________'')
       (ascii ''State of {state} County of {county}''),
     Replace_text_in_paragraph
       (ascii ''State of (______), County of (_____)'')
       (ascii ''State of ({state}), County of ({county})''),
     Replace_paragraph_contains (ascii ''Signed on'') signed_on_text,
     Replace_paragraph_contains (ascii ''On this _____ day of _________'') notary_text,
     Replace_paragraph_contains (ascii ''This Agreement is made and entered into this ______ day of'') entered_into_text,
     Replace_paragraph_contains (ascii ''By and between'') by_and_between_text,
     Replace_paragraph_contains (ascii ''For the purpose of setting forth the terms'') purpose_text
    ]"

text \<open>One iteration of the normalization loop of \<open>main\<close>, on one paragraph.\<close>

definition normalize_paragraph :: "para \<Rightarrow> para" where
  "normalize_paragraph p =
     (let normalized = py_replace (ptext p) [160] (ascii '' '');
          stripped = py_strip normalized;
          p1 = (if py_startswith stripped (ascii ''STATE OF'') \<and> py_in (ascii '')'') stripped
                then (let suffix_index = py_find stripped (ascii '')'');
                          suffix = py_slice_from stripped suffix_index
                      in p\<lparr>ptext := ascii ''STATE OF {state} '' @ suffix\<rparr>)
                else p)
      in if py_startswith stripped (ascii ''COUNTY'') \<and> py_in (ascii '')SS'') stripped
         then p1\<lparr>ptext := ascii ''COUNTY OF {county} )SS.:''\<rparr>
         else p1)"

fun normalization_scan :: "document \<Rightarrow> document" where
  "normalization_scan [] = []"
| "normalization_scan (p # ps) = normalize_paragraph p # normalization_scan ps"

text \<open>
  \<open>main\<close>, from the loaded document on. \<open>writable\<close> says whether the document library's
  \<open>save\<close> to the target path succeeds. The result is the outcome, the paragraphs in memory
  when the run ends, and the documents saved to the target path during the run, in order.
  The confirmation message printed after the save is not modelled.
\<close>

definition main :: "document \<Rightarrow> bool \<Rightarrow> outcome \<times> document \<times> document list" where
  "main doc writable =
     (case run_calls main_calls doc of
        (Raised e, doc') \<Rightarrow> (Raised e, doc', [])
      | (Returned, doc') \<Rightarrow>
          (let doc'' = normalization_scan doc'
           in if writable then (Returned, doc'', [doc'']) else (Raised OSError, doc'', [])))"

section \<open>The paragraph dumper (tools/dump_contract.py)\<close>

text \<open>
  The state of the script while the report is open: the paragraphs of the loaded document
  and the text written to the report so far. The loop runs over the paragraphs with their
  positions, counted from 0.
\<close>

record dump_state =
  paragraphs :: document
  report :: pystr

definition dump_line :: "nat \<Rightarrow> pystr \<Rightarrow> pystr" where
  "dump_line i t = py_str_nat i @ ascii '': '' @ t @ [10]"

definition dump_step :: "nat \<times> para \<Rightarrow> dump_state \<Rightarrow> dump_state" where
  "dump_step ip s =
     (let t = py_strip (ptext (snd ip))
      in if t \<noteq> [] then s\<lparr>report := report s @ dump_line (fst ip) t\<rparr> else s)"

definition dump_contract :: "document \<Rightarrow> dump_state" where
  "dump_contract doc =
     fold dump_step (enumerate 0 doc) \<lparr>paragraphs = doc, report = []\<rparr>"


section \<open>Specification-side notions\<close>

text \<open>
  \<open>sep.join(segs)\<close>: the pieces with the separator between neighbours. It states what
  replacing every occurrence means: the text is its pieces joined by the needle, the
  result the same pieces joined by the replacement.
\<close>

fun join_with :: "pystr \<Rightarrow> pystr list \<Rightarrow> pystr" where
  "join_with sep [] = []"
| "join_with sep [s] = s"
| "join_with sep (s # t # ts) = s @ sep @ join_with sep (t # ts)"

text \<open>
  The pieces of a text between the occurrences of a needle, the occurrences taken from the
  left and not overlapping: the text is the pieces joined by the needle, the needle occurs
  in no piece, and the occurrence that ends a piece is the leftmost one in what follows
  the occurrence before it (it would otherwise show in the piece extended by all but the
  last character of the needle). For the empty needle Python counts one occurrence before
  each character and one at the end, so the pieces are the empty piece, the single
  characters, and the empty piece.
\<close>

definition occurrence_split :: "pystr \<Rightarrow> pystr \<Rightarrow> pystr list \<Rightarrow> bool" where
  "occurrence_split needle s segs \<longleftrightarrow>
     segs \<noteq> [] \<and> s = join_with needle segs \<and>
     (if needle = [] then segs = [] # map (\<lambda>c. [c]) s @ [[]]
      else (\<forall>g\<in>set (butlast segs). \<not> py_in needle (g @ butlast needle)) \<and>
           \<not> py_in needle (last segs))"

section \<open>Evaluating the substring test on literals\<close>

text \<open>
  The substring test, with the outcome of each comparison as the argument that selects
  what is done next, so that rewriting a literal stops a comparison at the first
  character that differs.
\<close>

fun prefix_from :: "bool \<Rightarrow> 'a list \<Rightarrow> 'a list \<Rightarrow> bool" where
  "prefix_from True as cs = prefix as cs"
| "prefix_from False as cs = False"

fun py_in_from :: "bool \<Rightarrow> 'a list \<Rightarrow> 'a list \<Rightarrow> bool" where
  "py_in_from True n cs = True"
| "py_in_from False n cs = py_in n cs"

section \<open>Notions for running the engine on its own output\<close>

text \<open>
  A text holds a needle when it contains it once non-breaking spaces are read as spaces,
  which is how the normalization loop reads a text before it copies part of it.
\<close>

definition holds_needle :: "pystr \<Rightarrow> pystr \<Rightarrow> bool" where
  "holds_needle n t \<longleftrightarrow> py_in n (py_replace t [160] (ascii '' ''))"

text \<open>
  A call keeps a needle out when the text it writes cannot bring the needle into a
  paragraph: the replacement text of a whole-paragraph call does not hold the needle; the
  replacement of a substring call is not empty, has no non-breaking space, does not
  contain the needle, and begins and ends with characters that are not in the needle, so
  that no occurrence of the needle can reach into it from the text around it.
\<close>

fun keeps_out :: "pystr \<Rightarrow> call \<Rightarrow> bool" where
  "keeps_out n (Replace_paragraph_contains needle replacement) = (\<not> holds_needle n replacement)"
| "keeps_out n (Replace_text_in_paragraph needle replacement) =
     (replacement \<noteq> [] \<and> hd replacement \<notin> set n \<and> last replacement \<notin> set n \<and>
      \<not> py_in n replacement \<and> 160 \<notin> set replacement)"

text \<open>No paragraph of \<open>d'\<close> holds the needle unless the paragraph in its place in \<open>d\<close> did.\<close>

definition no_new_holder :: "pystr \<Rightarrow> document \<Rightarrow> document \<Rightarrow> bool" where
  "no_new_holder n d d' \<longleftrightarrow>
     length d' = length d \<and>
     (\<forall>j<length d. holds_needle n (ptext (d' ! j)) \<longrightarrow> holds_needle n (ptext (d ! j)))"

section \<open>Example documents\<close>

text \<open>
  Two contracts for running \<open>main\<close> on. Every clause that a whole-paragraph call looks
  for stands in a paragraph of its own (the paragraph holds just the words searched for).
  \<open>contract_with_one_repeat\<close> has the \<open>If No Registration\<close> clause twice;
  \<open>contract_with_repeats\<close> has three clauses twice, those whose replacement text does not
  contain the words searched for.
\<close>

definition contract_with_one_repeat :: document where
  "contract_with_one_repeat =
     [\<lparr>pelem = 0, ptext = ascii ''Dam:''\<rparr>,
      \<lparr>pelem = 1, ptext = ascii ''Sire:''\<rparr>,
      \<lparr>pelem = 2, ptext = ascii ''Born on''\<rparr>,
      \<lparr>pelem = 3, ptext = ascii ''Signed on''\<rparr>,
      \<lparr>pelem = 4, ptext = ascii ''This Agreement is made and entered into this ______ day of''\<rparr>,
      \<lparr>pelem = 5, ptext = ascii ''By and between''\<rparr>,
      \<lparr>pelem = 6, ptext = ascii ''The General Health Guarantee''\<rparr>,
      \<lparr>pelem = 7, ptext = ascii ''This Agreement dated''\<rparr>,
      \<lparr>pelem = 8, ptext = ascii ''The puppy is sold with breeding rights''\<rparr>,
      \<lparr>pelem = 9, ptext = ascii ''The puppy is sold as a pet''\<rparr>,
      \<lparr>pelem = 10, ptext = ascii ''In Consideration of the total sum''\<rparr>,
      \<lparr>pelem = 11, ptext = ascii ''For the purpose of setting forth the terms''\<rparr>,
      \<lparr>pelem = 12, ptext = ascii ''If No Registration''\<rparr>,
      \<lparr>pelem = 13, ptext = ascii ''If No Registration''\<rparr>,
      \<lparr>pelem = 14, ptext = ascii ''On this _____ day of _________''\<rparr>,
      \<lparr>pelem = 15, ptext = ascii ''The Buyer affirms that their purchase''\<rparr>]"

definition contract_with_repeats :: document where
  "contract_with_repeats =
     [\<lparr>pelem = 0, ptext = ascii ''Dam:''\<rparr>,
      \<lparr>pelem = 1, ptext = ascii ''Sire:''\<rparr>,
      \<lparr>pelem = 2, ptext = ascii ''Born on''\<rparr>,
      \<lparr>pelem = 3, ptext = ascii ''Signed on''\<rparr>,
      \<lparr>pelem = 4, ptext = ascii ''This Agreement is made and entered into this ______ day of''\<rparr>,
      \<lparr>pelem = 5, ptext = ascii ''This Agreement is made and entered into this ______ day of''\<rparr>,
      \<lparr>pelem = 6, ptext = ascii ''By and between''\<rparr>,
      \<lparr>pelem = 7, ptext = ascii ''The General Health Guarantee''\<rparr>,
      \<lparr>pelem = 8, ptext = ascii ''This Agreement dated''\<rparr>,
      \<lparr>pelem = 9, ptext = ascii ''The puppy is sold with breeding rights''\<rparr>,
      \<lparr>pelem = 10, ptext = ascii ''The puppy is sold as a pet''\<rparr>,
      \<lparr>pelem = 11, ptext = ascii ''In Consideration of the total sum''\<rparr>,
      \<lparr>pelem = 12, ptext = ascii ''For the purpose of setting forth the terms''\<rparr>,
      \<lparr>pelem = 13, ptext = ascii ''If No Registration''\<rparr>,
      \<lparr>pelem = 14, ptext = ascii ''If No Registration''\<rparr>,
      \<lparr>pelem = 15, ptext = ascii ''On this _____ day of _________''\<rparr>,
      \<lparr>pelem = 16, ptext = ascii ''On this _____ day of _________''\<rparr>,
      \<lparr>pelem = 17, ptext = ascii ''The Buyer affirms that their purchase''\<rparr>]"

section \<open>The substring test\<close>

lemma py_in_sublist: "py_in needle s \<longleftrightarrow> sublist needle s"
  by (induction s) (simp_all add: sublist_Cons_right)

lemma py_in_Nil [simp]: "py_in [] s"
  by (cases s) simp_all

section \<open>The whole-paragraph rule\<close>

lemma rpc_loop_None:
  "replace_paragraph_contains_loop doc n r = None \<longleftrightarrow> (\<forall>p\<in>set doc. \<not> py_in n (ptext p))"
  by (induction doc) auto

lemma rpc_loop_Some:
  "replace_paragraph_contains_loop doc n r = Some doc' \<Longrightarrow>
   \<exists>i<length doc. py_in n (ptext (doc ! i)) \<and> (\<forall>j<i. \<not> py_in n (ptext (doc ! j))) \<and>
     doc' = doc[i := (doc ! i)\<lparr>ptext := r\<rparr>]"
proof (induction doc arbitrary: doc')
  case Nil
  then show ?case by simp
next
  case (Cons p ps)
  show ?case
  proof (cases "py_in n (ptext p)")
    case True
    with Cons.prems have "doc' = (p # ps)[0 := ((p # ps) ! 0)\<lparr>ptext := r\<rparr>]" by simp
    with True show ?thesis by (intro exI[of _ 0]) simp
  next
    case False
    with Cons.prems obtain ps' where ps': "replace_paragraph_contains_loop ps n r = Some ps'"
      and d: "doc' = p # ps'" by auto
    from Cons.IH[OF ps'] obtain i where i: "i < length ps" "py_in n (ptext (ps ! i))"
      "\<forall>j<i. \<not> py_in n (ptext (ps ! j))" "ps' = ps[i := (ps ! i)\<lparr>ptext := r\<rparr>]" by blast
    have "\<forall>j<Suc i. \<not> py_in n (ptext ((p # ps) ! j))"
      using False i(3) by (auto simp: less_Suc_eq_0_disj)
    with i d show ?thesis by (intro exI[of _ "Suc i"]) simp
  qed
qed

text \<open>
  Claim C1. \<open>replace_paragraph_contains\<close> does exactly one of two things. If some paragraph's
  text contains the needle, it returns normally, and the document afterwards is the
  document before with the text of one paragraph set to the replacement: the first
  paragraph, in document order, whose text contains the needle. Otherwise it raises the
  \<open>ValueError\<close> carrying the needle and the document is as before.
\<close>

theorem replace_paragraph_contains_first_match:
  "(if \<exists>p\<in>set doc. py_in needle (ptext p)
    then \<exists>i<length doc.
           py_in needle (ptext (doc ! i)) \<and>
           (\<forall>j<i. \<not> py_in needle (ptext (doc ! j))) \<and>
           replace_paragraph_contains doc needle replacement =
             (Returned, doc[i := (doc ! i)\<lparr>ptext := replacement\<rparr>])
    else replace_paragraph_contains doc needle replacement = (Raised (ValueError needle), doc))"
proof (cases "replace_paragraph_contains_loop doc needle replacement")
  case None
  then have "\<not> (\<exists>p\<in>set doc. py_in needle (ptext p))"
    using rpc_loop_None[of doc needle replacement] by simp
  with None show ?thesis by (simp add: replace_paragraph_contains_def)
next
  case (Some doc')
  then have "\<exists>p\<in>set doc. py_in needle (ptext p)"
    using rpc_loop_None[of doc needle replacement] by auto
  with rpc_loop_Some[OF Some] Some show ?thesis
    by (auto simp: replace_paragraph_contains_def)
qed

theorem replace_paragraph_contains_first_match_witness:
  "replace_paragraph_contains
     [\<lparr>pelem = 0, ptext = ascii ''a''\<rparr>, \<lparr>pelem = 1, ptext = ascii ''xby''\<rparr>,
      \<lparr>pelem = 2, ptext = ascii ''b''\<rparr>] (ascii ''b'') (ascii ''R'')
   = (Returned,
      [\<lparr>pelem = 0, ptext = ascii ''a''\<rparr>, \<lparr>pelem = 1, ptext = ascii ''R''\<rparr>,
       \<lparr>pelem = 2, ptext = ascii ''b''\<rparr>])
   \<and> replace_paragraph_contains
     [\<lparr>pelem = 0, ptext = ascii ''a''\<rparr>, \<lparr>pelem = 1, ptext = ascii ''xby''\<rparr>]
     (ascii ''c'') (ascii ''R'')
   = (Raised (ValueError (ascii ''c'')),
      [\<lparr>pelem = 0, ptext = ascii ''a''\<rparr>, \<lparr>pelem = 1, ptext = ascii ''xby''\<rparr>])"
  using replace_paragraph_contains_first_match
      [of "[\<lparr>pelem = 0, ptext = ascii ''a''\<rparr>, \<lparr>pelem = 1, ptext = ascii ''xby''\<rparr>,
            \<lparr>pelem = 2, ptext = ascii ''b''\<rparr>]" "ascii ''b''" "ascii ''R''"]
    replace_paragraph_contains_first_match
      [of "[\<lparr>pelem = 0, ptext = ascii ''a''\<rparr>, \<lparr>pelem = 1, ptext = ascii ''xby''\<rparr>]"
          "ascii ''c''" "ascii ''R''"]
  by (auto simp: ascii_def less_Suc_eq_0_disj numeral_3_eq_3)

text \<open>
  Claim C10. With the empty needle and a document of at least one paragraph,
  \<open>replace_paragraph_contains\<close> returns normally and sets the text of the first paragraph
  to the replacement; the other paragraphs are as before.
\<close>

theorem replace_paragraph_contains_empty_needle:
  "doc \<noteq> [] \<Longrightarrow>
   replace_paragraph_contains doc [] replacement =
     (Returned, (hd doc)\<lparr>ptext := replacement\<rparr> # tl doc)"
  by (cases doc) (simp_all add: replace_paragraph_contains_def)

theorem replace_paragraph_contains_empty_needle_witness:
  "replace_paragraph_contains
     [\<lparr>pelem = 0, ptext = ascii ''a''\<rparr>, \<lparr>pelem = 1, ptext = []\<rparr>] [] (ascii ''R'')
   = (Returned, [\<lparr>pelem = 0, ptext = ascii ''R''\<rparr>, \<lparr>pelem = 1, ptext = []\<rparr>])"
  using replace_paragraph_contains_empty_needle
      [of "[\<lparr>pelem = 0, ptext = ascii ''a''\<rparr>, \<lparr>pelem = 1, ptext = []\<rparr>]" "ascii ''R''"]
  by simp

section \<open>The substring rule\<close>

lemma join_with_Cons: "ts \<noteq> [] \<Longrightarrow> join_with sep (s # ts) = s @ sep @ join_with sep ts"
  by (cases ts) simp_all

lemma join_with_Cons_hd:
  "join_with sep ((c # g) # gs) = c # join_with sep (g # gs)"
  by (cases gs) simp_all

lemma join_with_empty_singletons:
  "join_with new ([] # map (\<lambda>c. [c]) s @ [[]]) = new @ concat (map (\<lambda>c. c # new) s)"
  by (induction s) (simp_all add: join_with_Cons)

lemma join_with_Nil_concat: "join_with [] segs = concat segs"
  by (induction "[] :: pystr" segs rule: join_with.induct) simp_all

lemma py_replace_scan_absent: "\<not> py_in old s \<Longrightarrow> py_replace_scan s old new = s"
  by (induction s old new rule: py_replace_scan.induct) auto

lemma py_replace_absent: "\<not> py_in old s \<Longrightarrow> py_replace s old new = s"
  by (cases "old = []") (simp_all add: py_replace_def py_replace_scan_absent)

lemma rtp_loop_length [simp]:
  "length (replace_text_in_paragraph_loop doc n r) = length doc"
  by (induction doc) simp_all

lemma rtp_loop_nth:
  "i < length doc \<Longrightarrow> replace_text_in_paragraph_loop doc n r ! i =
     (if py_in n (ptext (doc ! i)) then (doc ! i)\<lparr>ptext := py_replace (ptext (doc ! i)) n r\<rparr>
      else doc ! i)"
  by (induction doc arbitrary: i) (auto simp: nth_Cons')

lemma rtp_loop_absent:
  "\<forall>p\<in>set doc. \<not> py_in n (ptext p) \<Longrightarrow> replace_text_in_paragraph_loop doc n r = doc"
  by (induction doc) simp_all

lemma py_in_length: "py_in n s \<Longrightarrow> length n \<le> length s"
  by (induction s) (auto dest: prefix_length_le)

lemma py_in_butlast: "n \<noteq> [] \<Longrightarrow> \<not> py_in n (butlast n)"
  using py_in_length[of n "butlast n"] by (cases n rule: rev_cases) auto

lemma py_replace_scan_split:
  assumes "old \<noteq> []"
  shows "\<exists>segs. occurrence_split old s segs \<and> py_replace_scan s old new = join_with new segs"
  using assms
proof (induction s old new rule: py_replace_scan.induct)
  case (1 old new)
  then show ?case by (intro exI[of _ "[[]]"]) (simp add: occurrence_split_def)
next
  case (2 c cs old new)
  show ?case
  proof (cases "prefix old (c # cs)")
    case True
    then obtain rest where rest: "c # cs = old @ rest" by (auto simp: prefix_def)
    then have d: "drop (length old) (c # cs) = rest" by (metis append_eq_conv_conj)
    from 2(1)[OF _ "2.prems"] True "2.prems" d obtain segs where
      segs: "occurrence_split old rest segs" "py_replace_scan rest old new = join_with new segs"
      by auto
    then have ne: "segs \<noteq> []" by (simp add: occurrence_split_def)
    have r: "py_replace_scan (c # cs) old new = new @ py_replace_scan rest old new"
      using True "2.prems" d by simp
    have "occurrence_split old (c # cs) ([] # segs)"
      using segs(1) rest "2.prems" ne py_in_butlast[OF "2.prems"]
      by (simp add: occurrence_split_def join_with_Cons)
    with r segs(2) ne show ?thesis
      by (intro exI[of _ "[] # segs"]) (simp add: join_with_Cons)
  next
    case False
    from 2(2)[OF _ "2.prems"] False obtain segs where
      segs: "occurrence_split old cs segs" "py_replace_scan cs old new = join_with new segs"
      by auto
    then obtain g gs where ggs: "segs = g # gs" by (cases segs) (auto simp: occurrence_split_def)
    have r: "py_replace_scan (c # cs) old new = c # py_replace_scan cs old new"
      using False by simp
    have cs: "cs = join_with old (g # gs)" using segs(1) ggs by (simp add: occurrence_split_def)
    have "occurrence_split old (c # cs) ((c # g) # gs)"
    proof (cases gs)
      case Nil
      with cs have "cs = g" by simp
      with False segs(1) ggs Nil "2.prems" show ?thesis
        by (simp add: occurrence_split_def)
    next
      case (Cons h hs)
      with cs have "c # cs = (c # g @ butlast old) @ last old # join_with old gs"
        using "2.prems" by (simp add: join_with_Cons)
      then have "prefix (c # g @ butlast old) (c # cs)" by (metis prefixI)
      then have "\<not> prefix old (c # g @ butlast old)"
        using False by (meson prefix_order.trans)
      with segs(1) ggs Cons "2.prems" cs show ?thesis
        by (simp add: occurrence_split_def join_with_Cons_hd)
    qed
    with r segs(2) ggs show ?thesis
      by (intro exI[of _ "(c # g) # gs"]) (simp add: join_with_Cons_hd)
  qed
qed

lemma py_replace_split:
  "\<exists>segs. occurrence_split old s segs \<and> py_replace s old new = join_with new segs"
proof (cases "old = []")
  case True
  have "s = concat ([] # map (\<lambda>c. [c]) s @ [[]])" by (induction s) simp_all
  with True show ?thesis
    by (intro exI[of _ "[] # map (\<lambda>c. [c]) s @ [[]]"])
       (simp add: occurrence_split_def py_replace_def join_with_empty_singletons join_with_Nil_concat)
next
  case False
  with py_replace_scan_split[OF False, of s new] show ?thesis
    by (simp add: py_replace_def)
qed

lemma first_occurrence_shorter:
  assumes eq: "g @ n @ r = g' @ n @ r'" and len: "length g < length g'"
  shows "py_in n (g' @ butlast n)"
proof -
  from eq len obtain u where u: "g' = g @ u" "u \<noteq> []"
    by (metis append_eq_append_conv2 append_self_conv length_append less_not_refl
        not_add_less1)
  with eq have nu: "n @ r = u @ n @ r'" by simp
  have "length n \<le> length (u @ butlast n)" using u(2) by (cases u) simp_all
  moreover have "prefix n (u @ n @ r')" using nu by (metis prefixI)
  moreover have "prefix (u @ butlast n) (u @ n @ r')"
    by (cases n rule: rev_cases) (simp_all add: prefix_def)
  ultimately have "prefix n (u @ butlast n)"
    by (metis prefix_length_prefix)
  then have "sublist n (g @ u @ butlast n)"
    by (metis prefix_def sublist_appendI)
  with u show ?thesis by (simp add: py_in_sublist)
qed

lemma first_occurrence_unique:
  assumes "g @ n @ r = g' @ n @ r'"
    and "\<not> py_in n (g @ butlast n)" and "\<not> py_in n (g' @ butlast n)"
  shows "g = g'"
proof -
  have "length g = length g'"
    using first_occurrence_shorter[OF assms(1)] first_occurrence_shorter[OF assms(1)[symmetric]]
      assms(2,3) by (meson linorder_neqE_nat)
  with assms(1) show ?thesis by simp
qed

lemma occurrence_split_unique:
  "occurrence_split n s segs \<Longrightarrow> occurrence_split n s segs' \<Longrightarrow> segs = segs'"
proof (cases "n = []")
  case True
  assume "occurrence_split n s segs" "occurrence_split n s segs'"
  with True have "segs = [] # map (\<lambda>c. [c]) s @ [[]]" "segs' = [] # map (\<lambda>c. [c]) s @ [[]]"
    unfolding occurrence_split_def by metis+
  then show ?thesis by simp
next
  case False
  assume "occurrence_split n s segs" "occurrence_split n s segs'"
  then show ?thesis
  proof (induction segs arbitrary: s segs')
    case Nil
    then show ?case by (simp add: occurrence_split_def)
  next
    case (Cons g gs)
    from Cons.prems(2) obtain g' gs' where s': "segs' = g' # gs'"
      by (cases segs') (auto simp: occurrence_split_def)
    have in_join: "py_in n (a @ n @ b)" for a b :: pystr
      by (simp add: py_in_sublist sublist_appendI)
    show ?case
    proof (cases gs)
      case Nil
      with Cons.prems(1) False have s: "s = g" "\<not> py_in n g"
        by (simp_all add: occurrence_split_def)
      show ?thesis
      proof (cases gs')
        case Nil
        with Cons.prems(2) s s' \<open>gs = []\<close> show ?thesis by (simp add: occurrence_split_def)
      next
        case (Cons h' hs')
        with Cons.prems(2) s' have "s = g' @ n @ join_with n gs'"
          by (simp add: occurrence_split_def)
        with in_join s show ?thesis by metis
      qed
    next
      case (Cons h hs)
      with Cons.prems(1) False have s: "s = g @ n @ join_with n gs"
        "\<not> py_in n (g @ butlast n)" "occurrence_split n (join_with n gs) gs"
        by (simp_all add: occurrence_split_def)
      show ?thesis
      proof (cases gs')
        case Nil
        with Cons.prems(2) s' False have "s = g'" "\<not> py_in n g'"
          by (simp_all add: occurrence_split_def)
        with in_join s(1) show ?thesis by metis
      next
        case (Cons h' hs')
        with Cons.prems(2) s' False have s2: "s = g' @ n @ join_with n gs'"
          "\<not> py_in n (g' @ butlast n)" "occurrence_split n (join_with n gs') gs'"
          by (simp_all add: occurrence_split_def)
        from s(1) s2(1) have eq: "g @ n @ join_with n gs = g' @ n @ join_with n gs'" by simp
        from first_occurrence_unique[OF eq s(2) s2(2)] have gg: "g = g'" .
        with eq have "join_with n gs = join_with n gs'" by simp
        with s2(3) have "occurrence_split n (join_with n gs) gs'" by simp
        from Cons.IH[OF s(3) this] gg s' show ?thesis by simp
      qed
    qed
  qed
qed


text \<open>
  Claim C2. \<open>replace_text_in_paragraph\<close> returns normally and keeps every paragraph in
  its place. In a paragraph whose text contains the needle every occurrence is replaced
  and the text around the occurrences is kept: the text has exactly one split into pieces
  at the occurrences of the needle (\<open>occurrence_split\<close>), and the new text is those pieces
  joined by the replacement. A paragraph whose text does not contain the needle is as
  before; when no paragraph contains it the document is as before.
\<close>

theorem replace_text_in_paragraph_all_occurrences:
  "fst (replace_text_in_paragraph doc needle replacement) = Returned \<and>
   length (snd (replace_text_in_paragraph doc needle replacement)) = length doc \<and>
   (\<forall>i<length doc.
      pelem (snd (replace_text_in_paragraph doc needle replacement) ! i) = pelem (doc ! i) \<and>
      (if py_in needle (ptext (doc ! i))
       then \<exists>segs. occurrence_split needle (ptext (doc ! i)) segs \<and>
              (\<forall>segs'. occurrence_split needle (ptext (doc ! i)) segs' \<longrightarrow> segs' = segs) \<and>
              ptext (snd (replace_text_in_paragraph doc needle replacement) ! i) =
                join_with replacement segs
       else snd (replace_text_in_paragraph doc needle replacement) ! i = doc ! i)) \<and>
   ((\<forall>p\<in>set doc. \<not> py_in needle (ptext p)) \<longrightarrow>
      replace_text_in_paragraph doc needle replacement = (Returned, doc))"
proof -
  have "\<exists>segs. occurrence_split needle t segs \<and>
          (\<forall>segs'. occurrence_split needle t segs' \<longrightarrow> segs' = segs) \<and>
          py_replace t needle replacement = join_with replacement segs" for t
    using py_replace_split[of needle t replacement] occurrence_split_unique by blast
  then show ?thesis
    by (auto simp: replace_text_in_paragraph_def rtp_loop_nth rtp_loop_absent)
qed

theorem replace_text_in_paragraph_all_occurrences_witness:
  "ptext (snd (replace_text_in_paragraph
      [\<lparr>pelem = 0, ptext = ascii ''aaa''\<rparr>, \<lparr>pelem = 1, ptext = ascii ''ba''\<rparr>]
      (ascii ''aa'') (ascii ''Q'')) ! 0) = ascii ''Qa'' \<and>
   snd (replace_text_in_paragraph
      [\<lparr>pelem = 0, ptext = ascii ''aaa''\<rparr>, \<lparr>pelem = 1, ptext = ascii ''ba''\<rparr>]
      (ascii ''aa'') (ascii ''Q'')) ! 1 = \<lparr>pelem = 1, ptext = ascii ''ba''\<rparr> \<and>
   ptext (snd (replace_text_in_paragraph [\<lparr>pelem = 0, ptext = ascii ''ab''\<rparr>] [] (ascii ''X'')) ! 0)
     = ascii ''XaXbX''"
proof -
  let ?d = "[\<lparr>pelem = 0, ptext = ascii ''aaa''\<rparr>, \<lparr>pelem = 1, ptext = ascii ''ba''\<rparr>]"
  let ?e = "[\<lparr>pelem = 0, ptext = ascii ''ab''\<rparr>]"
  have s1: "occurrence_split (ascii ''aa'') (ptext (?d ! 0)) [[], ascii ''a'']"
    and s2: "occurrence_split [] (ptext (?e ! 0)) [[], ascii ''a'', ascii ''b'', []]"
    by (simp_all add: occurrence_split_def ascii_def)
  have in0: "py_in (ascii ''aa'') (ptext (?d ! 0)) = True"
    and in1: "py_in (ascii ''aa'') (ptext (?d ! 1)) = False"
    and in2: "py_in [] (ptext (?e ! 0)) = True"
    by (simp_all add: ascii_def)
  have l: "0 < length ?d" "1 < length ?d" "0 < length ?e" by simp_all
  note d = replace_text_in_paragraph_all_occurrences
    [of ?d "ascii ''aa''" "ascii ''Q''", THEN conjunct2, THEN conjunct2, THEN conjunct1, rule_format]
  note e = replace_text_in_paragraph_all_occurrences
    [of ?e "[]" "ascii ''X''", THEN conjunct2, THEN conjunct2, THEN conjunct1, rule_format]
  from d[OF l(1), THEN conjunct2] obtain segs where
    "\<forall>segs'. occurrence_split (ascii ''aa'') (ptext (?d ! 0)) segs' \<longrightarrow> segs' = segs"
    "ptext (snd (replace_text_in_paragraph ?d (ascii ''aa'') (ascii ''Q'')) ! 0) =
       join_with (ascii ''Q'') segs"
    unfolding in0 if_True by blast
  with s1 have r0: "ptext (snd (replace_text_in_paragraph ?d (ascii ''aa'') (ascii ''Q'')) ! 0) =
       join_with (ascii ''Q'') [[], ascii ''a'']"
    by blast
  from d[OF l(2), THEN conjunct2]
  have r1: "snd (replace_text_in_paragraph ?d (ascii ''aa'') (ascii ''Q'')) ! 1 = ?d ! 1"
    unfolding in1 if_False .
  from e[OF l(3), THEN conjunct2] obtain segs where
    "\<forall>segs'. occurrence_split [] (ptext (?e ! 0)) segs' \<longrightarrow> segs' = segs"
    "ptext (snd (replace_text_in_paragraph ?e [] (ascii ''X'')) ! 0) = join_with (ascii ''X'') segs"
    unfolding in2 if_True by blast
  with s2 have r2: "ptext (snd (replace_text_in_paragraph ?e [] (ascii ''X'')) ! 0) =
       join_with (ascii ''X'') [[], ascii ''a'', ascii ''b'', []]"
    by blast
  have j: "join_with (ascii ''Q'') [[], ascii ''a''] = ascii ''Qa''"
    "join_with (ascii ''X'') [[], ascii ''a'', ascii ''b'', []] = ascii ''XaXbX''"
    "?d ! 1 = \<lparr>pelem = 1, ptext = ascii ''ba''\<rparr>"
    by (simp_all add: ascii_def)
  from r0 r1 r2 show ?thesis unfolding j by blast
qed

section \<open>The engine run\<close>

lemma rpc_loop_pelem:
  "replace_paragraph_contains_loop doc n r = Some doc' \<Longrightarrow> map pelem doc' = map pelem doc"
  by (induction doc arbitrary: doc') (auto split: if_splits)

lemma replace_paragraph_contains_pelem:
  "map pelem (snd (replace_paragraph_contains doc n r)) = map pelem doc"
  by (auto simp: replace_paragraph_contains_def rpc_loop_pelem split: option.splits)

lemma replace_text_in_paragraph_pelem:
  "map pelem (snd (replace_text_in_paragraph doc n r)) = map pelem doc"
  by (induction doc) (simp_all add: replace_text_in_paragraph_def)

lemma run_call_pelem: "map pelem (snd (run_call c doc)) = map pelem doc"
  by (cases c) (simp_all add: replace_paragraph_contains_pelem replace_text_in_paragraph_pelem)

lemma run_calls_pelem: "map pelem (snd (run_calls cs doc)) = map pelem doc"
proof (induction cs arbitrary: doc)
  case Nil
  then show ?case by simp
next
  case (Cons c cs)
  obtain out d where cd: "run_call c doc = (out, d)" by (cases "run_call c doc")
  then have d: "map pelem d = map pelem doc" using run_call_pelem[of c doc] by simp
  show ?case
  proof (cases out)
    case Returned
    with cd Cons.IH[of d] d show ?thesis by simp
  next
    case (Raised e)
    with cd d show ?thesis by simp
  qed
qed

lemma normalize_paragraph_pelem [simp]: "pelem (normalize_paragraph p) = pelem p"
  by (simp add: normalize_paragraph_def Let_def)

lemma normalization_scan_map: "normalization_scan doc = map normalize_paragraph doc"
  by (induction doc) simp_all

lemma normalization_scan_pelem: "map pelem (normalization_scan doc) = map pelem doc"
  by (simp add: normalization_scan_map)

text \<open>
  Claim C3. Whatever the input document, and whether the run ends normally or by an
  exception, the paragraphs in memory at the end of \<open>main\<close> are the paragraphs of the input,
  the same objects in the same order: none inserted, removed or moved. Only texts change.
\<close>

theorem main_preserves_paragraphs:
  "map pelem (fst (snd (main doc writable))) = map pelem doc \<and>
   length (fst (snd (main doc writable))) = length doc"
proof -
  obtain out d where r: "run_calls main_calls doc = (out, d)"
    by (cases "run_calls main_calls doc")
  then have d: "map pelem d = map pelem doc" using run_calls_pelem[of main_calls doc] by simp
  have "map pelem (fst (snd (main doc writable))) = map pelem doc"
    using r d by (cases out) (simp_all add: main_def Let_def normalization_scan_pelem)
  then show ?thesis using map_eq_imp_length_eq by blast
qed

theorem main_preserves_paragraphs_witness:
  "map pelem (fst (snd (main [\<lparr>pelem = 7, ptext = ascii ''Sire: Rex''\<rparr>, \<lparr>pelem = 3, ptext = []\<rparr>] True)))
     = [7, 3]"
  using main_preserves_paragraphs
    [of "[\<lparr>pelem = 7, ptext = ascii ''Sire: Rex''\<rparr>, \<lparr>pelem = 3, ptext = []\<rparr>]" True]
  by simp

lemma run_calls_append:
  "run_calls (cs @ ds) doc =
     (case run_calls cs doc of
        (Returned, doc') \<Rightarrow> run_calls ds doc'
      | (Raised e, doc') \<Rightarrow> (Raised e, doc'))"
proof (induction cs arbitrary: doc)
  case Nil
  then show ?case by simp
next
  case (Cons c cs)
  show ?case
  proof (cases "run_call c doc")
    case (Pair out d)
    with Cons.IH[of d] show ?thesis by (cases out) simp_all
  qed
qed

lemma run_calls_required_match:
  assumes k: "k < length cs" and c: "cs ! k = Replace_paragraph_contains n r"
    and pre: "run_calls (take k cs) doc = (Returned, d)"
    and absent: "\<forall>p\<in>set d. \<not> py_in n (ptext p)"
  shows "run_calls cs doc = (Raised (ValueError n), d)"
proof -
  have cs: "cs = take k cs @ Replace_paragraph_contains n r # drop (Suc k) cs"
    using k c by (metis id_take_nth_drop)
  have "replace_paragraph_contains_loop d n r = None"
    using absent by (simp add: rpc_loop_None)
  then have "run_calls (Replace_paragraph_contains n r # drop (Suc k) cs) d
             = (Raised (ValueError n), d)"
    by (simp add: replace_paragraph_contains_def)
  with pre show ?thesis
    using run_calls_append[of "take k cs" "Replace_paragraph_contains n r # drop (Suc k) cs" doc]
      cs by simp
qed

text \<open>
  Claim C4. When a whole-paragraph call of \<open>main\<close> is reached (the calls before it returned)
  and no paragraph of the document, as those calls left it, contains its needle, \<open>main\<close>
  raises the \<open>ValueError\<close> carrying that needle and saves nothing. And every run ends in one
  of two ways: all calls returned, the normalization loop ran and the document was saved
  exactly once, as it then stood; or an exception was raised and nothing was saved.
\<close>

theorem main_saves_all_or_nothing:
  "(\<forall>k n r d. k < length main_calls \<and> main_calls ! k = Replace_paragraph_contains n r \<and>
       run_calls (take k main_calls) doc = (Returned, d) \<and>
       (\<forall>p\<in>set d. \<not> py_in n (ptext p)) \<longrightarrow>
       main doc writable = (Raised (ValueError n), d, [])) \<and>
   ((\<exists>d. run_calls main_calls doc = (Returned, d) \<and>
          main doc writable = (Returned, normalization_scan d, [normalization_scan d])) \<or>
    (\<exists>e. fst (main doc writable) = Raised e \<and> snd (snd (main doc writable)) = []))"
proof (intro conjI allI impI)
  fix k n r d
  assume "k < length main_calls \<and> main_calls ! k = Replace_paragraph_contains n r \<and>
       run_calls (take k main_calls) doc = (Returned, d) \<and>
       (\<forall>p\<in>set d. \<not> py_in n (ptext p))"
  then have "run_calls main_calls doc = (Raised (ValueError n), d)"
    using run_calls_required_match by blast
  then show "main doc writable = (Raised (ValueError n), d, [])"
    by (simp add: main_def)
next
  obtain out d where r: "run_calls main_calls doc = (out, d)"
    by (cases "run_calls main_calls doc")
  show "(\<exists>d. run_calls main_calls doc = (Returned, d) \<and>
          main doc writable = (Returned, normalization_scan d, [normalization_scan d])) \<or>
    (\<exists>e. fst (main doc writable) = Raised e \<and> snd (snd (main doc writable)) = [])"
    using r by (cases out; cases writable) (simp_all add: main_def Let_def)
qed


section \<open>The normalization loop\<close>

lemma py_in_singleton: "py_in [c] s \<longleftrightarrow> c \<in> set s"
  by (induction s) auto

lemma py_find_from_singleton:
  "c \<in> set s \<Longrightarrow> py_find_from i s [c] = int (i + length (takeWhile (\<lambda>x. x \<noteq> c) s))"
  by (induction s arbitrary: i) auto

lemma py_find_singleton:
  "c \<in> set s \<Longrightarrow> py_find s [c] = int (length (takeWhile (\<lambda>x. x \<noteq> c) s))"
  by (simp add: py_find_def py_find_from_singleton)

lemma drop_takeWhile_length: "drop (length (takeWhile P s)) s = dropWhile P s"
  by (induction s) simp_all

lemma suffix_from_first:
  "c \<in> set s \<Longrightarrow> py_slice_from s (py_find s [c]) = dropWhile (\<lambda>x. x \<noteq> c) s"
  by (simp add: py_find_singleton py_slice_from_def drop_takeWhile_length)

lemma first_occurrence:
  "c \<in> set s \<Longrightarrow>
   length (takeWhile (\<lambda>x. x \<noteq> c) s) < length s \<and>
   s ! length (takeWhile (\<lambda>x. x \<noteq> c) s) = c"
  by (induction s) auto

lemma filter_dropWhile_first:
  "filter (\<lambda>x. x = c) (dropWhile (\<lambda>x. x \<noteq> c) s) = filter (\<lambda>x. x = c) s"
  by (induction s) simp_all

lemma ascii_rparen: "ascii '')'' = [41]"
  by (simp add: ascii_def)

lemma state_not_county:
  "py_startswith s (ascii ''STATE OF'') \<Longrightarrow> \<not> py_startswith s (ascii ''COUNTY'')"
  by (cases s) (auto simp: py_startswith_def ascii_def)

lemma normalize_paragraph_state:
  assumes "py_startswith (py_strip (py_replace (ptext p) [160] (ascii '' ''))) (ascii ''STATE OF'')"
    and "py_in (ascii '')'') (py_strip (py_replace (ptext p) [160] (ascii '' '')))"
  shows "normalize_paragraph p =
     p\<lparr>ptext := ascii ''STATE OF {state} '' @
       dropWhile (\<lambda>x. x \<noteq> 41) (py_strip (py_replace (ptext p) [160] (ascii '' '')))\<rparr>"
proof -
  let ?s = "py_strip (py_replace (ptext p) [160] (ascii '' ''))"
  from assms(2) have m: "41 \<in> set ?s" by (simp add: ascii_rparen py_in_singleton)
  have "py_slice_from ?s (py_find ?s (ascii '')'')) = dropWhile (\<lambda>x. x \<noteq> 41) ?s"
    using suffix_from_first[OF m] by (simp add: ascii_rparen)
  with assms state_not_county[OF assms(1)] show ?thesis
    by (simp add: normalize_paragraph_def Let_def)
qed

lemma normalize_paragraph_county:
  assumes "py_startswith (py_strip (py_replace (ptext p) [160] (ascii '' ''))) (ascii ''COUNTY'')"
    and "py_in (ascii '')SS'') (py_strip (py_replace (ptext p) [160] (ascii '' '')))"
  shows "normalize_paragraph p = p\<lparr>ptext := ascii ''COUNTY OF {county} )SS.:''\<rparr>"
  using assms state_not_county[of "py_strip (py_replace (ptext p) [160] (ascii '' ''))"]
  by (auto simp: normalize_paragraph_def Let_def)

lemma normalization_scan_nth:
  "i < length doc \<Longrightarrow> normalization_scan doc ! i = normalize_paragraph (doc ! i)"
  by (simp add: normalization_scan_map)

text \<open>
  Claim C5, as amended. A paragraph whose text, with non-breaking spaces mapped to spaces
  and then stripped, starts with \<open>COUNTY\<close> and contains \<open>)SS\<close> has its text set to exactly
  \<open>COUNTY OF {county} )SS.:\<close> by the normalization loop, whatever else it held.
\<close>

theorem normalization_scan_county:
  "i < length doc \<Longrightarrow>
   py_startswith (py_strip (py_replace (ptext (doc ! i)) [160] (ascii '' ''))) (ascii ''COUNTY'') \<Longrightarrow>
   py_in (ascii '')SS'') (py_strip (py_replace (ptext (doc ! i)) [160] (ascii '' ''))) \<Longrightarrow>
   ptext (normalization_scan doc ! i) = ascii ''COUNTY OF {county} )SS.:''"
  by (simp add: normalization_scan_nth normalize_paragraph_county)

theorem normalization_scan_county_witness:
  "ptext (normalization_scan
      [\<lparr>pelem = 0, ptext = ascii ''Intro''\<rparr>,
       \<lparr>pelem = 1, ptext = [32, 160] @ ascii ''COUNTY OF KINGS )SS.: and more ''\<rparr>] ! 1)
   = ascii ''COUNTY OF {county} )SS.:''"
  by (rule normalization_scan_county)
     (simp_all add: ascii_def py_replace_def py_strip_def py_isspace_def py_startswith_def)

text \<open>
  The claim as the specification words it, for every paragraph that merely contains
  \<open>COUNTY\<close> and \<open>)SS\<close>, fails: the loop tests that the stripped text starts with \<open>COUNTY\<close>.
  The paragraph \<open>KINGS COUNTY )SS\<close> contains both and keeps its text.
\<close>

theorem normalization_scan_county_counterexample:
  "py_in (ascii ''COUNTY'') (py_strip (py_replace (ascii ''KINGS COUNTY )SS'') [160] (ascii '' ''))) \<and>
   py_in (ascii '')SS'') (py_strip (py_replace (ascii ''KINGS COUNTY )SS'') [160] (ascii '' ''))) \<and>
   ptext (normalization_scan [\<lparr>pelem = 0, ptext = ascii ''KINGS COUNTY )SS''\<rparr>] ! 0)
     = ascii ''KINGS COUNTY )SS'' \<and>
   ptext (normalization_scan [\<lparr>pelem = 0, ptext = ascii ''KINGS COUNTY )SS''\<rparr>] ! 0)
     \<noteq> ascii ''COUNTY OF {county} )SS.:''"
  by (simp add: ascii_def py_replace_def py_strip_def py_isspace_def py_startswith_def
      normalize_paragraph_def py_find_def py_slice_from_def Let_def)

text \<open>
  Claim C6. A paragraph whose text, with non-breaking spaces mapped to spaces and then
  stripped, starts with \<open>STATE OF\<close> and contains a closing parenthesis has its text set by
  the normalization loop to \<open>STATE OF {state} \<close> followed by the stripped text from a closing
  parenthesis of it to its end; what stood before that parenthesis is dropped.
\<close>

theorem normalization_scan_state:
  "i < length doc \<Longrightarrow>
   py_startswith (py_strip (py_replace (ptext (doc ! i)) [160] (ascii '' ''))) (ascii ''STATE OF'') \<Longrightarrow>
   py_in (ascii '')'') (py_strip (py_replace (ptext (doc ! i)) [160] (ascii '' ''))) \<Longrightarrow>
   \<exists>k<length (py_strip (py_replace (ptext (doc ! i)) [160] (ascii '' ''))).
     py_strip (py_replace (ptext (doc ! i)) [160] (ascii '' '')) ! k = 41 \<and>
     ptext (normalization_scan doc ! i) =
       ascii ''STATE OF {state} '' @
       drop k (py_strip (py_replace (ptext (doc ! i)) [160] (ascii '' '')))"
proof -
  let ?s = "py_strip (py_replace (ptext (doc ! i)) [160] (ascii '' ''))"
  assume i: "i < length doc" and st: "py_startswith ?s (ascii ''STATE OF'')"
    and "py_in (ascii '')'') ?s"
  then have m: "41 \<in> set ?s" by (simp add: ascii_rparen py_in_singleton)
  let ?k = "length (takeWhile (\<lambda>x. x \<noteq> 41) ?s)"
  have k: "?k < length ?s" and at: "?s ! ?k = 41"
    using first_occurrence[OF m] by simp_all
  have "ptext (normalization_scan doc ! i) = ascii ''STATE OF {state} '' @ drop ?k ?s"
    using i st \<open>py_in (ascii '')'') ?s\<close>
    by (simp add: normalization_scan_nth normalize_paragraph_state drop_takeWhile_length)
  with k at show ?thesis by blast
qed


theorem normalization_scan_state_witness:
  "\<exists>k<length (ascii ''STATE OF (NY) County of Kings'').
     ascii ''STATE OF (NY) County of Kings'' ! k = 41 \<and>
     ptext (normalization_scan
        [\<lparr>pelem = 0, ptext = [160] @ ascii ''STATE OF (NY) County of Kings ''\<rparr>] ! 0)
      = ascii ''STATE OF {state} '' @ drop k (ascii ''STATE OF (NY) County of Kings'')"
proof -
  have s: "py_strip (py_replace
             (ptext ([\<lparr>pelem = 0, ptext = [160] @ ascii ''STATE OF (NY) County of Kings ''\<rparr>] ! 0))
             [160] (ascii '' '')) = ascii ''STATE OF (NY) County of Kings''"
    by (simp add: ascii_def py_replace_def py_strip_def py_isspace_def)
  have st: "py_startswith (ascii ''STATE OF (NY) County of Kings'') (ascii ''STATE OF'')"
    and par: "py_in (ascii '')'') (ascii ''STATE OF (NY) County of Kings'')"
    by (simp_all add: ascii_def py_startswith_def)
  show ?thesis
    using normalization_scan_state
      [of 0 "[\<lparr>pelem = 0, ptext = [160] @ ascii ''STATE OF (NY) County of Kings ''\<rparr>]",
        unfolded s, OF _ st par]
    by simp
qed

text \<open>
  Claim C9. The parenthesis is the first one: when the stripped text starts with
  \<open>STATE OF\<close> and holds two or more closing parentheses, the new text is
  \<open>STATE OF {state} \<close> followed by the stripped text from its leftmost closing parenthesis
  to its end, later parentheses included; the text before the leftmost one is dropped.
\<close>

theorem normalization_scan_state_first_paren:
  "i < length doc \<Longrightarrow>
   py_startswith (py_strip (py_replace (ptext (doc ! i)) [160] (ascii '' ''))) (ascii ''STATE OF'') \<Longrightarrow>
   2 \<le> length (filter (\<lambda>x. x = 41) (py_strip (py_replace (ptext (doc ! i)) [160] (ascii '' '')))) \<Longrightarrow>
   ptext (normalization_scan doc ! i) =
     ascii ''STATE OF {state} '' @
     dropWhile (\<lambda>x. x \<noteq> 41) (py_strip (py_replace (ptext (doc ! i)) [160] (ascii '' ''))) \<and>
   filter (\<lambda>x. x = 41) (dropWhile (\<lambda>x. x \<noteq> 41) (py_strip (py_replace (ptext (doc ! i)) [160] (ascii '' ''))))
     = filter (\<lambda>x. x = 41) (py_strip (py_replace (ptext (doc ! i)) [160] (ascii '' ''))) \<and>
   41 \<notin> set (takeWhile (\<lambda>x. x \<noteq> 41) (py_strip (py_replace (ptext (doc ! i)) [160] (ascii '' ''))))"
proof -
  let ?s = "py_strip (py_replace (ptext (doc ! i)) [160] (ascii '' ''))"
  assume i: "i < length doc" and st: "py_startswith ?s (ascii ''STATE OF'')"
    and two: "2 \<le> length (filter (\<lambda>x. x = 41) ?s)"
  from two have "filter (\<lambda>x. x = 41) ?s \<noteq> []" by auto
  then have m: "41 \<in> set ?s" by (auto simp: filter_empty_conv)
  then have "py_in (ascii '')'') ?s" by (simp add: ascii_rparen py_in_singleton)
  with i st have "ptext (normalization_scan doc ! i) =
      ascii ''STATE OF {state} '' @ dropWhile (\<lambda>x. x \<noteq> 41) ?s"
    by (simp add: normalization_scan_nth normalize_paragraph_state)
  moreover have "filter (\<lambda>x. x = 41) (dropWhile (\<lambda>x. x \<noteq> 41) ?s) = filter (\<lambda>x. x = 41) ?s"
    by (rule filter_dropWhile_first)
  moreover have "41 \<notin> set (takeWhile (\<lambda>x. x \<noteq> 41) ?s)"
    by (auto dest: set_takeWhileD)
  ultimately show ?thesis by blast
qed

theorem normalization_scan_state_first_paren_witness:
  "ptext (normalization_scan
      [\<lparr>pelem = 0, ptext = ascii ''STATE OF (NY) (seal) x''\<rparr>] ! 0)
   = ascii ''STATE OF {state} ) (seal) x''"
proof -
  have i: "(0::nat) < length [\<lparr>pelem = 0, ptext = ascii ''STATE OF (NY) (seal) x''\<rparr>]"
    by simp
  have s: "py_strip (py_replace (ptext ([\<lparr>pelem = 0, ptext = ascii ''STATE OF (NY) (seal) x''\<rparr>] ! 0))
             [160] (ascii '' '')) = ascii ''STATE OF (NY) (seal) x''"
    by (simp add: ascii_def py_replace_def py_strip_def py_isspace_def)
  have "py_startswith (ascii ''STATE OF (NY) (seal) x'') (ascii ''STATE OF'')"
    "2 \<le> length (filter (\<lambda>x. x = 41) (ascii ''STATE OF (NY) (seal) x''))"
    by (simp_all add: ascii_def py_startswith_def)
  with normalization_scan_state_first_paren[OF i, unfolded s]
  have "ptext (normalization_scan [\<lparr>pelem = 0, ptext = ascii ''STATE OF (NY) (seal) x''\<rparr>] ! 0)
    = ascii ''STATE OF {state} '' @ dropWhile (\<lambda>x. x \<noteq> 41) (ascii ''STATE OF (NY) (seal) x'')"
    by blast
  then show ?thesis by (simp add: ascii_def)
qed

(*LEMMAS*)
section \<open>The report of the dumper\<close>

lemma dump_fold_paragraphs:
  "paragraphs (fold dump_step ips s) = paragraphs s"
  by (induction ips arbitrary: s) (simp_all add: dump_step_def Let_def)

lemma dump_fold_report:
  "report (fold dump_step ips s) =
     report s @ concat (map (\<lambda>ip. dump_line (fst ip) (py_strip (ptext (snd ip))))
                         (filter (\<lambda>ip. py_strip (ptext (snd ip)) \<noteq> []) ips))"
  by (induction ips arbitrary: s) (simp_all add: dump_step_def Let_def)

lemma py_str_nat_digits: "set (py_str_nat n) \<subseteq> {48..57}"
proof (induction n rule: py_str_nat.induct)
  case (1 n)
  show ?case
  proof (cases "n < 10")
    case True
    then show ?thesis by (subst py_str_nat.simps) auto
  next
    case False
    have "n mod 10 < 10" by simp
    then have "48 + n mod 10 \<in> {48..57}" by auto
    with 1 False show ?thesis by (subst py_str_nat.simps) auto
  qed
qed

lemma py_str_nat_value: "foldl (\<lambda>a d. 10 * a + (d - 48)) 0 (py_str_nat n) = n"
proof (induction n rule: py_str_nat.induct)
  case (1 n)
  show ?case
  proof (cases "n < 10")
    case True
    then show ?thesis by (subst py_str_nat.simps) simp
  next
    case False
    with 1 show ?thesis by (subst py_str_nat.simps) simp
  qed
qed

lemma all_nth_of_set: "\<forall>p\<in>set xs. P p \<Longrightarrow> \<forall>i<length xs. P (xs ! i)"
  by simp

lemma newline_count_concat:
  "\<forall>x\<in>set xs. length (filter (\<lambda>c. c = (10::nat)) (f x)) = 1 \<Longrightarrow>
   length (filter (\<lambda>c. c = 10) (concat (map f xs))) = length xs"
  by (induction xs) simp_all

lemma py_str_nat_no_newline: "filter (\<lambda>c. c = 10) (py_str_nat n) = []"
  using py_str_nat_digits[of n] by (auto simp: filter_empty_conv)

lemma dump_line_newlines:
  "10 \<notin> set t \<Longrightarrow> length (filter (\<lambda>c. c = 10) (dump_line i t)) = 1"
  by (auto simp: dump_line_def py_str_nat_no_newline ascii_def filter_empty_conv)

lemma dump_contract_records:
  "report (dump_contract doc) =
     concat (map (\<lambda>i. dump_line i (py_strip (ptext (doc ! i))))
                 (filter (\<lambda>i. py_strip (ptext (doc ! i)) \<noteq> []) [0..<length doc]))"
proof -
  have e: "enumerate 0 doc = map (\<lambda>i. (i, doc ! i)) [0..<length doc]"
    by (simp add: enumerate_eq_zip zip_eq_conv o_def map_nth)
  have "filter (\<lambda>ip. py_strip (ptext (snd ip)) \<noteq> []) (map (\<lambda>i. (i, doc ! i)) [0..<length doc])
        = map (\<lambda>i. (i, doc ! i)) (filter (\<lambda>i. py_strip (ptext (doc ! i)) \<noteq> []) [0..<length doc])"
    by (simp add: filter_map o_def)
  then show ?thesis
    by (simp add: dump_contract_def dump_fold_report e o_def)
qed

text \<open>
  Claim C7, as amended. The report is, in paragraph order, one newline-terminated record
  \<open>{index}: {stripped text}\<close> for each paragraph whose stripped text is not empty, and nothing
  else; the index is the paragraph's position in the whole document, counted from 0, and
  the document is as it was. The stripped text is written as it is: when no stripped text
  holds a line break, each record is one line and the report has exactly as many lines as
  there are paragraphs with non-empty stripped text.
\<close>

theorem dump_contract_report:
  "report (dump_contract doc) =
     concat (map (\<lambda>i. py_str_nat i @ ascii '': '' @ py_strip (ptext (doc ! i)) @ [10])
                 (filter (\<lambda>i. py_strip (ptext (doc ! i)) \<noteq> []) [0..<length doc])) \<and>
   paragraphs (dump_contract doc) = doc \<and>
   ((\<forall>i<length doc. 10 \<notin> set (py_strip (ptext (doc ! i)))) \<longrightarrow>
      length (filter (\<lambda>c. c = 10) (report (dump_contract doc))) =
      length (filter (\<lambda>i. py_strip (ptext (doc ! i)) \<noteq> []) [0..<length doc]))"
proof (intro conjI impI)
  show "report (dump_contract doc) =
     concat (map (\<lambda>i. py_str_nat i @ ascii '': '' @ py_strip (ptext (doc ! i)) @ [10])
                 (filter (\<lambda>i. py_strip (ptext (doc ! i)) \<noteq> []) [0..<length doc]))"
    using dump_contract_records[of doc] by (simp add: dump_line_def)
  show "paragraphs (dump_contract doc) = doc"
    by (simp add: dump_contract_def dump_fold_paragraphs)
next
  assume nl: "\<forall>i<length doc. 10 \<notin> set (py_strip (ptext (doc ! i)))"
  have "\<forall>i\<in>set (filter (\<lambda>i. py_strip (ptext (doc ! i)) \<noteq> []) [0..<length doc]).
          length (filter (\<lambda>c. c = 10) (dump_line i (py_strip (ptext (doc ! i))))) = 1"
    using nl by (simp add: dump_line_newlines)
  from newline_count_concat[OF this] show
    "length (filter (\<lambda>c. c = 10) (report (dump_contract doc))) =
     length (filter (\<lambda>i. py_strip (ptext (doc ! i)) \<noteq> []) [0..<length doc])"
    by (simp add: dump_contract_records)
qed

theorem dump_contract_report_witness:
  "report (dump_contract
      [\<lparr>pelem = 0, ptext = ascii '' Title ''\<rparr>, \<lparr>pelem = 1, ptext = [32, 160, 9]\<rparr>,
       \<lparr>pelem = 2, ptext = ascii ''Sire: Rex''\<rparr>])
   = ascii ''0: Title'' @ [10] @ ascii ''2: Sire: Rex'' @ [10] \<and>
   length (filter (\<lambda>c. c = 10) (report (dump_contract
      [\<lparr>pelem = 0, ptext = ascii '' Title ''\<rparr>, \<lparr>pelem = 1, ptext = [32, 160, 9]\<rparr>,
       \<lparr>pelem = 2, ptext = ascii ''Sire: Rex''\<rparr>]))) = 2"
proof -
  have u: "[0..<length [\<lparr>pelem = 0, ptext = ascii '' Title ''\<rparr>, \<lparr>pelem = 1, ptext = [32, 160, 9]\<rparr>,
       \<lparr>pelem = 2, ptext = ascii ''Sire: Rex''\<rparr>]] = [0, 1, 2]"
    by (simp add: upt_rec)
  have nl: "\<forall>i<length [\<lparr>pelem = 0, ptext = ascii '' Title ''\<rparr>, \<lparr>pelem = 1, ptext = [32, 160, 9]\<rparr>,
       \<lparr>pelem = 2, ptext = ascii ''Sire: Rex''\<rparr>].
     10 \<notin> set (py_strip (ptext ([\<lparr>pelem = 0, ptext = ascii '' Title ''\<rparr>,
       \<lparr>pelem = 1, ptext = [32, 160, 9]\<rparr>, \<lparr>pelem = 2, ptext = ascii ''Sire: Rex''\<rparr>] ! i)))"
    by (rule all_nth_of_set) (simp add: ascii_def py_strip_def py_isspace_def)
  from dump_contract_report
    [of "[\<lparr>pelem = 0, ptext = ascii '' Title ''\<rparr>, \<lparr>pelem = 1, ptext = [32, 160, 9]\<rparr>,
       \<lparr>pelem = 2, ptext = ascii ''Sire: Rex''\<rparr>]"] nl
  have "report (dump_contract
      [\<lparr>pelem = 0, ptext = ascii '' Title ''\<rparr>, \<lparr>pelem = 1, ptext = [32, 160, 9]\<rparr>,
       \<lparr>pelem = 2, ptext = ascii ''Sire: Rex''\<rparr>]) =
     concat (map (\<lambda>i. py_str_nat i @ ascii '': '' @ py_strip (ptext
        ([\<lparr>pelem = 0, ptext = ascii '' Title ''\<rparr>, \<lparr>pelem = 1, ptext = [32, 160, 9]\<rparr>,
          \<lparr>pelem = 2, ptext = ascii ''Sire: Rex''\<rparr>] ! i)) @ [10])
                 (filter (\<lambda>i. py_strip (ptext ([\<lparr>pelem = 0, ptext = ascii '' Title ''\<rparr>,
          \<lparr>pelem = 1, ptext = [32, 160, 9]\<rparr>, \<lparr>pelem = 2, ptext = ascii ''Sire: Rex''\<rparr>] ! i)) \<noteq> [])
            [0, 1, 2]))"
    and "length (filter (\<lambda>c. c = 10) (report (dump_contract
      [\<lparr>pelem = 0, ptext = ascii '' Title ''\<rparr>, \<lparr>pelem = 1, ptext = [32, 160, 9]\<rparr>,
       \<lparr>pelem = 2, ptext = ascii ''Sire: Rex''\<rparr>]))) =
      length (filter (\<lambda>i. py_strip (ptext ([\<lparr>pelem = 0, ptext = ascii '' Title ''\<rparr>,
          \<lparr>pelem = 1, ptext = [32, 160, 9]\<rparr>, \<lparr>pelem = 2, ptext = ascii ''Sire: Rex''\<rparr>] ! i)) \<noteq> [])
            [0, 1, 2])"
    unfolding u by blast+
  then show ?thesis
    by (simp_all add: ascii_def py_strip_def py_isspace_def py_str_nat.simps)
qed

text \<open>
  The claim as worded, exactly one line per such paragraph, fails for a paragraph whose
  text holds a line break inside: its one record is two lines of the report, the second
  without an index.
\<close>

theorem dump_contract_lines_counterexample:
  "report (dump_contract [\<lparr>pelem = 0, ptext = ascii ''a'' @ [10] @ ascii ''b''\<rparr>])
     = ascii ''0: a'' @ [10] @ ascii ''b'' @ [10] \<and>
   length (filter (\<lambda>c. c = 10)
     (report (dump_contract [\<lparr>pelem = 0, ptext = ascii ''a'' @ [10] @ ascii ''b''\<rparr>]))) = 2 \<and>
   length (filter (\<lambda>p. py_strip (ptext p) \<noteq> [])
     [\<lparr>pelem = 0, ptext = ascii ''a'' @ [10] @ ascii ''b''\<rparr>]) = 1"
  by (simp add: dump_contract_def dump_step_def dump_line_def Let_def enumerate_eq_zip
      ascii_def py_strip_def py_isspace_def py_str_nat.simps)

section \<open>Substring facts about the texts of main\<close>

lemma py_in_Cons_from: "py_in n (c # cs) = py_in_from (prefix n (c # cs)) n cs"
  by (cases "prefix n (c # cs)") simp_all

lemma prefix_Cons_from: "prefix (a # as) (c # cs) = prefix_from (a = c) as cs"
  by (cases "a = c") simp_all

lemmas literal_eval =
  py_in_Cons_from py_in.simps(1) prefix_Cons_from prefix_code(1,2) prefix_from.simps
  py_in_from.simps char.inject simp_thms list.simps append.simps

lemma prefix_map_inj: "inj f \<Longrightarrow> prefix (map f a) (map f b) = prefix a b"
  by (metis inj_map_eq_map map_mono_prefix prefix_map_rightE)

lemma py_in_map_inj: "inj f \<Longrightarrow> py_in (map f a) (map f b) = py_in a b"
  by (induction b) (simp_all add: prefix_map_inj del: map_eq_Cons_conv, metis list.simps(9) prefix_map_inj)

lemma py_in_ascii: "py_in (ascii a) (ascii b) = py_in a b"
  unfolding ascii_def by (rule py_in_map_inj) (rule inj_of_char)

lemma py_in_split:
  "x \<notin> set n \<Longrightarrow> py_in n (a @ x # b) = (py_in n a \<or> py_in n b)"
proof (induction a)
  case Nil
  then show ?case by (cases n) auto
next
  case (Cons c a)
  have "prefix n (c # a @ x # b) = prefix n (c # a)"
    using Cons.prems prefix_append[of n "c # a" "x # b"]
    by (auto simp: prefix_Cons)
  with Cons show ?case by auto
qed

lemma ascii_Latin1: "256 \<le> x \<Longrightarrow> x \<notin> set (ascii s)"
  by (auto simp: ascii_def) (metis nat_of_char_less_256 not_less)


lemma py_in_ascii_split:
  "256 \<le> x \<Longrightarrow> py_in (ascii n) (ascii a @ x # ascii b) = (py_in n a \<or> py_in n b)"
  using py_in_split[of x "ascii n" "ascii a" "ascii b"] ascii_Latin1[of x n]
  by (simp add: py_in_ascii)

lemma py_in_appendD: "py_in (a @ b) t \<Longrightarrow> py_in a t"
  unfolding py_in_sublist sublist_def by (metis append.assoc)

lemma ascii_append: "ascii (a @ b) = ascii a @ ascii b"
  by (simp add: ascii_def)

lemma state_of_absent:
  assumes "\<not> py_in (ascii ''State of '') t"
  shows "py_in (ascii ''State of ________, County of ________'') t = False"
    and "py_in (ascii ''State of ___________ County of ____________'') t = False"
    and "py_in (ascii ''State of (______), County of (_____)'') t = False"
proof -
  have "ascii ''State of ________, County of ________'' =
        ascii ''State of '' @ ascii ''________, County of ________''"
    "ascii ''State of ___________ County of ____________'' =
        ascii ''State of '' @ ascii ''___________ County of ____________''"
    "ascii ''State of (______), County of (_____)'' =
        ascii ''State of '' @ ascii ''(______), County of (_____)''"
    unfolding ascii_append[symmetric] by simp_all
  with assms py_in_appendD[of "ascii ''State of ''" _ t]
  show "py_in (ascii ''State of ________, County of ________'') t = False"
    and "py_in (ascii ''State of ___________ County of ____________'') t = False"
    and "py_in (ascii ''State of (______), County of (_____)'') t = False"
    by metis+
qed

lemma py_strip_keeps_head:
  "\<not> py_isspace c \<Longrightarrow> \<exists>rest. py_strip (c # cs) = c # rest"
  by (simp add: py_strip_def dropWhile_append3)

lemma py_replace_keeps_head:
  "c \<noteq> old \<Longrightarrow> \<exists>rest. py_replace (c # cs) [old] new = c # rest"
  by (simp add: py_replace_def)

lemma normalize_keep:
  assumes "t \<noteq> []" and "\<not> py_isspace (hd t)" and "hd t \<noteq> 83" and "hd t \<noteq> 67"
  shows "normalize_paragraph \<lparr>pelem = i, ptext = t\<rparr> = \<lparr>pelem = i, ptext = t\<rparr>"
proof -
  from assms(1) obtain c cs where t: "t = c # cs" by (cases t) auto
  with assms(2) have "c \<noteq> 160" by (auto simp: py_isspace_def)
  from py_replace_keeps_head[OF this, of cs "ascii '' ''"] obtain r1
    where r1: "py_replace t [160] (ascii '' '') = c # r1" using t by auto
  from py_strip_keeps_head[of c r1] assms(2) t obtain r2
    where r2: "py_strip (c # r1) = c # r2" by auto
  have "\<not> py_startswith (c # r2) (ascii ''STATE OF'')"
    "\<not> py_startswith (c # r2) (ascii ''COUNTY'')"
    using assms(3,4) t by (simp_all add: py_startswith_def ascii_def)
  then show ?thesis
    by (simp add: normalize_paragraph_def Let_def r1 r2)
qed

lemma above_Latin1: "(256::nat) \<le> 8220"
  by simp

lemma in_agreement_dated:
    "\<not> py_in (ascii ''This Agreement dated'') (ascii ''Dam:'')"
    "\<not> py_in (ascii ''This Agreement dated'') (ascii ''Sire:'')"
    "\<not> py_in (ascii ''This Agreement dated'') (ascii ''Born on'')"
    "\<not> py_in (ascii ''This Agreement dated'') (ascii ''Signed on'')"
    "\<not> py_in (ascii ''This Agreement dated'') (ascii ''This Agreement is made and entered into this ______ day of'')"
    "\<not> py_in (ascii ''This Agreement dated'') (ascii ''By and between'')"
    "\<not> py_in (ascii ''This Agreement dated'') (ascii ''The General Health Guarantee'')"
    "py_in (ascii ''This Agreement dated'') (ascii ''This Agreement dated'')"
    "\<not> py_in (ascii ''This Agreement dated'') dam_text"
    "\<not> py_in (ascii ''This Agreement dated'') sire_text"
    "\<not> py_in (ascii ''This Agreement dated'') born_on_text"
    "\<not> py_in (ascii ''This Agreement dated'') signed_on_text"
    "\<not> py_in (ascii ''This Agreement dated'') entered_into_text"
    "\<not> py_in (ascii ''This Agreement dated'') by_and_between_text"
    "\<not> py_in (ascii ''This Agreement dated'') health_guarantee_text"
    "py_in (ascii ''This Agreement dated'') agreement_dated_text"
  by (simp_all only: dam_text_def sire_text_def born_on_text_def signed_on_text_def entered_into_text_def by_and_between_text_def health_guarantee_text_def agreement_dated_text_def
      py_in_ascii py_in_ascii_split[OF above_Latin1] literal_eval)

lemma in_consideration:
    "\<not> py_in (ascii ''In Consideration of the total sum'') (ascii ''Dam:'')"
    "\<not> py_in (ascii ''In Consideration of the total sum'') (ascii ''Sire:'')"
    "\<not> py_in (ascii ''In Consideration of the total sum'') (ascii ''Born on'')"
    "\<not> py_in (ascii ''In Consideration of the total sum'') (ascii ''Signed on'')"
    "\<not> py_in (ascii ''In Consideration of the total sum'') (ascii ''This Agreement is made and entered into this ______ day of'')"
    "\<not> py_in (ascii ''In Consideration of the total sum'') (ascii ''By and between'')"
    "\<not> py_in (ascii ''In Consideration of the total sum'') (ascii ''The General Health Guarantee'')"
    "\<not> py_in (ascii ''In Consideration of the total sum'') agreement_dated_text"
    "\<not> py_in (ascii ''In Consideration of the total sum'') (ascii ''The puppy is sold with breeding rights'')"
    "\<not> py_in (ascii ''In Consideration of the total sum'') (ascii ''The puppy is sold as a pet'')"
    "py_in (ascii ''In Consideration of the total sum'') (ascii ''In Consideration of the total sum'')"
    "\<not> py_in (ascii ''In Consideration of the total sum'') dam_text"
    "\<not> py_in (ascii ''In Consideration of the total sum'') sire_text"
    "\<not> py_in (ascii ''In Consideration of the total sum'') born_on_text"
    "\<not> py_in (ascii ''In Consideration of the total sum'') signed_on_text"
    "\<not> py_in (ascii ''In Consideration of the total sum'') entered_into_text"
    "\<not> py_in (ascii ''In Consideration of the total sum'') by_and_between_text"
    "\<not> py_in (ascii ''In Consideration of the total sum'') health_guarantee_text"
    "\<not> py_in (ascii ''In Consideration of the total sum'') full_rights_text"
    "\<not> py_in (ascii ''In Consideration of the total sum'') pet_sale_text"
    "py_in (ascii ''In Consideration of the total sum'') consideration_text"
  by (simp_all only: agreement_dated_text_def dam_text_def sire_text_def born_on_text_def signed_on_text_def entered_into_text_def by_and_between_text_def health_guarantee_text_def full_rights_text_def pet_sale_text_def consideration_text_def
      py_in_ascii py_in_ascii_split[OF above_Latin1] literal_eval)

lemma in_born_on:
    "\<not> py_in (ascii ''Born on'') (ascii ''Dam:'')"
    "\<not> py_in (ascii ''Born on'') (ascii ''Sire:'')"
    "py_in (ascii ''Born on'') (ascii ''Born on'')"
    "\<not> py_in (ascii ''Born on'') dam_text"
    "\<not> py_in (ascii ''Born on'') sire_text"
    "py_in (ascii ''Born on'') born_on_text"
  by (simp_all only: dam_text_def sire_text_def born_on_text_def
      py_in_ascii py_in_ascii_split[OF above_Latin1] literal_eval)

lemma in_sire:
    "\<not> py_in (ascii ''Sire:'') (ascii ''Dam:'')"
    "py_in (ascii ''Sire:'') (ascii ''Sire:'')"
    "\<not> py_in (ascii ''Sire:'') dam_text"
    "py_in (ascii ''Sire:'') sire_text"
  by (simp_all only: dam_text_def sire_text_def
      py_in_ascii py_in_ascii_split[OF above_Latin1] literal_eval)

lemma in_dam:
    "py_in (ascii ''Dam:'') (ascii ''Dam:'')"
    "py_in (ascii ''Dam:'') dam_text"
  by (simp_all only: dam_text_def
      py_in_ascii py_in_ascii_split[OF above_Latin1] literal_eval)

lemma in_pet_sale:
    "\<not> py_in (ascii ''The puppy is sold as a pet'') dam_text"
    "\<not> py_in (ascii ''The puppy is sold as a pet'') sire_text"
    "\<not> py_in (ascii ''The puppy is sold as a pet'') born_on_text"
    "\<not> py_in (ascii ''The puppy is sold as a pet'') (ascii ''Signed on'')"
    "\<not> py_in (ascii ''The puppy is sold as a pet'') (ascii ''This Agreement is made and entered into this ______ day of'')"
    "\<not> py_in (ascii ''The puppy is sold as a pet'') (ascii ''By and between'')"
    "\<not> py_in (ascii ''The puppy is sold as a pet'') (ascii ''The General Health Guarantee'')"
    "\<not> py_in (ascii ''The puppy is sold as a pet'') agreement_dated_text"
    "\<not> py_in (ascii ''The puppy is sold as a pet'') (ascii ''The puppy is sold with breeding rights'')"
    "py_in (ascii ''The puppy is sold as a pet'') (ascii ''The puppy is sold as a pet'')"
    "\<not> py_in (ascii ''The puppy is sold as a pet'') signed_on_text"
    "\<not> py_in (ascii ''The puppy is sold as a pet'') entered_into_text"
    "\<not> py_in (ascii ''The puppy is sold as a pet'') by_and_between_text"
    "\<not> py_in (ascii ''The puppy is sold as a pet'') health_guarantee_text"
    "\<not> py_in (ascii ''The puppy is sold as a pet'') full_rights_text"
    "py_in (ascii ''The puppy is sold as a pet'') pet_sale_text"
  by (simp_all only: dam_text_def sire_text_def born_on_text_def agreement_dated_text_def signed_on_text_def entered_into_text_def by_and_between_text_def health_guarantee_text_def full_rights_text_def pet_sale_text_def
      py_in_ascii py_in_ascii_split[OF above_Latin1] literal_eval)

lemma in_full_rights:
    "\<not> py_in (ascii ''The puppy is sold with breeding rights'') dam_text"
    "\<not> py_in (ascii ''The puppy is sold with breeding rights'') sire_text"
    "\<not> py_in (ascii ''The puppy is sold with breeding rights'') born_on_text"
    "\<not> py_in (ascii ''The puppy is sold with breeding rights'') (ascii ''Signed on'')"
    "\<not> py_in (ascii ''The puppy is sold with breeding rights'') (ascii ''This Agreement is made and entered into this ______ day of'')"
    "\<not> py_in (ascii ''The puppy is sold with breeding rights'') (ascii ''By and between'')"
    "\<not> py_in (ascii ''The puppy is sold with breeding rights'') (ascii ''The General Health Guarantee'')"
    "\<not> py_in (ascii ''The puppy is sold with breeding rights'') agreement_dated_text"
    "py_in (ascii ''The puppy is sold with breeding rights'') (ascii ''The puppy is sold with breeding rights'')"
    "\<not> py_in (ascii ''The puppy is sold with breeding rights'') signed_on_text"
    "\<not> py_in (ascii ''The puppy is sold with breeding rights'') entered_into_text"
    "\<not> py_in (ascii ''The puppy is sold with breeding rights'') by_and_between_text"
    "\<not> py_in (ascii ''The puppy is sold with breeding rights'') health_guarantee_text"
    "py_in (ascii ''The puppy is sold with breeding rights'') full_rights_text"
  by (simp_all only: dam_text_def sire_text_def born_on_text_def agreement_dated_text_def signed_on_text_def entered_into_text_def by_and_between_text_def health_guarantee_text_def full_rights_text_def
      py_in_ascii py_in_ascii_split[OF above_Latin1] literal_eval)

lemma in_no_registration:
    "\<not> py_in (ascii ''If No Registration'') dam_text"
    "\<not> py_in (ascii ''If No Registration'') sire_text"
    "\<not> py_in (ascii ''If No Registration'') born_on_text"
    "\<not> py_in (ascii ''If No Registration'') (ascii ''Signed on'')"
    "\<not> py_in (ascii ''If No Registration'') (ascii ''This Agreement is made and entered into this ______ day of'')"
    "\<not> py_in (ascii ''If No Registration'') (ascii ''By and between'')"
    "\<not> py_in (ascii ''If No Registration'') (ascii ''The General Health Guarantee'')"
    "\<not> py_in (ascii ''If No Registration'') agreement_dated_text"
    "\<not> py_in (ascii ''If No Registration'') full_rights_text"
    "\<not> py_in (ascii ''If No Registration'') pet_sale_text"
    "\<not> py_in (ascii ''If No Registration'') consideration_text"
    "\<not> py_in (ascii ''If No Registration'') (ascii ''For the purpose of setting forth the terms'')"
    "py_in (ascii ''If No Registration'') (ascii ''If No Registration'')"
    "\<not> py_in (ascii ''If No Registration'') signed_on_text"
    "\<not> py_in (ascii ''If No Registration'') entered_into_text"
    "\<not> py_in (ascii ''If No Registration'') by_and_between_text"
    "\<not> py_in (ascii ''If No Registration'') health_guarantee_text"
    "\<not> py_in (ascii ''If No Registration'') purpose_text"
    "\<not> py_in (ascii ''If No Registration'') no_registration_text"
    "\<not> py_in (ascii ''If No Registration'') notary_text"
    "\<not> py_in (ascii ''If No Registration'') buyer_affirms_text"
  by (simp_all only: dam_text_def sire_text_def born_on_text_def agreement_dated_text_def full_rights_text_def pet_sale_text_def consideration_text_def signed_on_text_def entered_into_text_def by_and_between_text_def health_guarantee_text_def purpose_text_def no_registration_text_def notary_text_def buyer_affirms_text_def
      py_in_ascii py_in_ascii_split[OF above_Latin1] literal_eval)

lemma in_buyer_affirms:
    "\<not> py_in (ascii ''The Buyer affirms that their purchase'') dam_text"
    "\<not> py_in (ascii ''The Buyer affirms that their purchase'') sire_text"
    "\<not> py_in (ascii ''The Buyer affirms that their purchase'') born_on_text"
    "\<not> py_in (ascii ''The Buyer affirms that their purchase'') (ascii ''Signed on'')"
    "\<not> py_in (ascii ''The Buyer affirms that their purchase'') (ascii ''This Agreement is made and entered into this ______ day of'')"
    "\<not> py_in (ascii ''The Buyer affirms that their purchase'') (ascii ''By and between'')"
    "\<not> py_in (ascii ''The Buyer affirms that their purchase'') (ascii ''The General Health Guarantee'')"
    "\<not> py_in (ascii ''The Buyer affirms that their purchase'') agreement_dated_text"
    "\<not> py_in (ascii ''The Buyer affirms that their purchase'') full_rights_text"
    "\<not> py_in (ascii ''The Buyer affirms that their purchase'') pet_sale_text"
    "\<not> py_in (ascii ''The Buyer affirms that their purchase'') consideration_text"
    "\<not> py_in (ascii ''The Buyer affirms that their purchase'') (ascii ''For the purpose of setting forth the terms'')"
    "\<not> py_in (ascii ''The Buyer affirms that their purchase'') no_registration_text"
    "\<not> py_in (ascii ''The Buyer affirms that their purchase'') (ascii ''If No Registration'')"
    "\<not> py_in (ascii ''The Buyer affirms that their purchase'') (ascii ''On this _____ day of _________'')"
    "py_in (ascii ''The Buyer affirms that their purchase'') (ascii ''The Buyer affirms that their purchase'')"
    "\<not> py_in (ascii ''The Buyer affirms that their purchase'') signed_on_text"
    "\<not> py_in (ascii ''The Buyer affirms that their purchase'') entered_into_text"
    "\<not> py_in (ascii ''The Buyer affirms that their purchase'') by_and_between_text"
    "\<not> py_in (ascii ''The Buyer affirms that their purchase'') health_guarantee_text"
    "\<not> py_in (ascii ''The Buyer affirms that their purchase'') purpose_text"
    "\<not> py_in (ascii ''The Buyer affirms that their purchase'') notary_text"
    "py_in (ascii ''The Buyer affirms that their purchase'') buyer_affirms_text"
  by (simp_all only: dam_text_def sire_text_def born_on_text_def agreement_dated_text_def full_rights_text_def pet_sale_text_def consideration_text_def no_registration_text_def signed_on_text_def entered_into_text_def by_and_between_text_def health_guarantee_text_def purpose_text_def notary_text_def buyer_affirms_text_def
      py_in_ascii py_in_ascii_split[OF above_Latin1] literal_eval)

lemma in_health_guarantee:
    "\<not> py_in (ascii ''The General Health Guarantee'') dam_text"
    "\<not> py_in (ascii ''The General Health Guarantee'') sire_text"
    "\<not> py_in (ascii ''The General Health Guarantee'') born_on_text"
    "\<not> py_in (ascii ''The General Health Guarantee'') (ascii ''Signed on'')"
    "\<not> py_in (ascii ''The General Health Guarantee'') (ascii ''This Agreement is made and entered into this ______ day of'')"
    "\<not> py_in (ascii ''The General Health Guarantee'') (ascii ''By and between'')"
    "py_in (ascii ''The General Health Guarantee'') (ascii ''The General Health Guarantee'')"
    "\<not> py_in (ascii ''The General Health Guarantee'') signed_on_text"
    "\<not> py_in (ascii ''The General Health Guarantee'') entered_into_text"
    "\<not> py_in (ascii ''The General Health Guarantee'') by_and_between_text"
    "py_in (ascii ''The General Health Guarantee'') health_guarantee_text"
  by (simp_all only: dam_text_def sire_text_def born_on_text_def signed_on_text_def entered_into_text_def by_and_between_text_def health_guarantee_text_def
      py_in_ascii py_in_ascii_split[OF above_Latin1] literal_eval)

lemma in_state_of:
    "\<not> py_in (ascii ''State of '') dam_text"
    "\<not> py_in (ascii ''State of '') sire_text"
    "\<not> py_in (ascii ''State of '') born_on_text"
    "\<not> py_in (ascii ''State of '') (ascii ''Signed on'')"
    "\<not> py_in (ascii ''State of '') (ascii ''This Agreement is made and entered into this ______ day of'')"
    "\<not> py_in (ascii ''State of '') (ascii ''By and between'')"
    "\<not> py_in (ascii ''State of '') health_guarantee_text"
    "\<not> py_in (ascii ''State of '') agreement_dated_text"
    "\<not> py_in (ascii ''State of '') full_rights_text"
    "\<not> py_in (ascii ''State of '') pet_sale_text"
    "\<not> py_in (ascii ''State of '') consideration_text"
    "\<not> py_in (ascii ''State of '') (ascii ''For the purpose of setting forth the terms'')"
    "\<not> py_in (ascii ''State of '') no_registration_text"
    "\<not> py_in (ascii ''State of '') (ascii ''If No Registration'')"
    "\<not> py_in (ascii ''State of '') (ascii ''On this _____ day of _________'')"
    "\<not> py_in (ascii ''State of '') buyer_affirms_text"
    "\<not> py_in (ascii ''State of '') signed_on_text"
    "\<not> py_in (ascii ''State of '') entered_into_text"
    "\<not> py_in (ascii ''State of '') by_and_between_text"
    "\<not> py_in (ascii ''State of '') purpose_text"
    "\<not> py_in (ascii ''State of '') notary_text"
  by (simp_all only: dam_text_def sire_text_def born_on_text_def health_guarantee_text_def agreement_dated_text_def full_rights_text_def pet_sale_text_def consideration_text_def no_registration_text_def buyer_affirms_text_def signed_on_text_def entered_into_text_def by_and_between_text_def purpose_text_def notary_text_def
      py_in_ascii py_in_ascii_split[OF above_Latin1] literal_eval)

lemma in_signed_on:
    "\<not> py_in (ascii ''Signed on'') dam_text"
    "\<not> py_in (ascii ''Signed on'') sire_text"
    "\<not> py_in (ascii ''Signed on'') born_on_text"
    "py_in (ascii ''Signed on'') (ascii ''Signed on'')"
    "py_in (ascii ''Signed on'') signed_on_text"
  by (simp_all only: dam_text_def sire_text_def born_on_text_def signed_on_text_def
      py_in_ascii py_in_ascii_split[OF above_Latin1] literal_eval)

lemma in_notary:
    "\<not> py_in (ascii ''On this _____ day of _________'') dam_text"
    "\<not> py_in (ascii ''On this _____ day of _________'') sire_text"
    "\<not> py_in (ascii ''On this _____ day of _________'') born_on_text"
    "\<not> py_in (ascii ''On this _____ day of _________'') signed_on_text"
    "\<not> py_in (ascii ''On this _____ day of _________'') (ascii ''This Agreement is made and entered into this ______ day of'')"
    "\<not> py_in (ascii ''On this _____ day of _________'') (ascii ''By and between'')"
    "\<not> py_in (ascii ''On this _____ day of _________'') health_guarantee_text"
    "\<not> py_in (ascii ''On this _____ day of _________'') agreement_dated_text"
    "\<not> py_in (ascii ''On this _____ day of _________'') full_rights_text"
    "\<not> py_in (ascii ''On this _____ day of _________'') pet_sale_text"
    "\<not> py_in (ascii ''On this _____ day of _________'') consideration_text"
    "\<not> py_in (ascii ''On this _____ day of _________'') (ascii ''For the purpose of setting forth the terms'')"
    "\<not> py_in (ascii ''On this _____ day of _________'') no_registration_text"
    "\<not> py_in (ascii ''On this _____ day of _________'') (ascii ''If No Registration'')"
    "py_in (ascii ''On this _____ day of _________'') (ascii ''On this _____ day of _________'')"
    "\<not> py_in (ascii ''On this _____ day of _________'') entered_into_text"
    "\<not> py_in (ascii ''On this _____ day of _________'') by_and_between_text"
    "\<not> py_in (ascii ''On this _____ day of _________'') purpose_text"
    "\<not> py_in (ascii ''On this _____ day of _________'') notary_text"
    "\<not> py_in (ascii ''On this _____ day of _________'') buyer_affirms_text"
    "\<not> py_in (ascii ''On this _____ day of _________'') (ascii ''Dam:'')"
    "\<not> py_in (ascii ''On this _____ day of _________'') (ascii ''Sire:'')"
    "\<not> py_in (ascii ''On this _____ day of _________'') (ascii ''Born on'')"
    "\<not> py_in (ascii ''On this _____ day of _________'') (ascii ''Signed on'')"
    "\<not> py_in (ascii ''On this _____ day of _________'') (ascii ''The General Health Guarantee'')"
    "\<not> py_in (ascii ''On this _____ day of _________'') (ascii ''This Agreement dated'')"
    "\<not> py_in (ascii ''On this _____ day of _________'') (ascii ''The puppy is sold with breeding rights'')"
    "\<not> py_in (ascii ''On this _____ day of _________'') (ascii ''The puppy is sold as a pet'')"
    "\<not> py_in (ascii ''On this _____ day of _________'') (ascii ''In Consideration of the total sum'')"
    "\<not> py_in (ascii ''On this _____ day of _________'') (ascii ''The Buyer affirms that their purchase'')"
  by (simp_all only: dam_text_def sire_text_def born_on_text_def signed_on_text_def health_guarantee_text_def agreement_dated_text_def full_rights_text_def pet_sale_text_def consideration_text_def no_registration_text_def entered_into_text_def by_and_between_text_def purpose_text_def notary_text_def buyer_affirms_text_def
      py_in_ascii py_in_ascii_split[OF above_Latin1] literal_eval)

lemma in_entered_into:
    "\<not> py_in (ascii ''This Agreement is made and entered into this ______ day of'') dam_text"
    "\<not> py_in (ascii ''This Agreement is made and entered into this ______ day of'') sire_text"
    "\<not> py_in (ascii ''This Agreement is made and entered into this ______ day of'') born_on_text"
    "\<not> py_in (ascii ''This Agreement is made and entered into this ______ day of'') signed_on_text"
    "py_in (ascii ''This Agreement is made and entered into this ______ day of'') (ascii ''This Agreement is made and entered into this ______ day of'')"
    "\<not> py_in (ascii ''This Agreement is made and entered into this ______ day of'') entered_into_text"
    "\<not> py_in (ascii ''This Agreement is made and entered into this ______ day of'') by_and_between_text"
    "\<not> py_in (ascii ''This Agreement is made and entered into this ______ day of'') health_guarantee_text"
    "\<not> py_in (ascii ''This Agreement is made and entered into this ______ day of'') agreement_dated_text"
    "\<not> py_in (ascii ''This Agreement is made and entered into this ______ day of'') full_rights_text"
    "\<not> py_in (ascii ''This Agreement is made and entered into this ______ day of'') pet_sale_text"
    "\<not> py_in (ascii ''This Agreement is made and entered into this ______ day of'') consideration_text"
    "\<not> py_in (ascii ''This Agreement is made and entered into this ______ day of'') purpose_text"
    "\<not> py_in (ascii ''This Agreement is made and entered into this ______ day of'') no_registration_text"
    "\<not> py_in (ascii ''This Agreement is made and entered into this ______ day of'') notary_text"
    "\<not> py_in (ascii ''This Agreement is made and entered into this ______ day of'') buyer_affirms_text"
  by (simp_all only: dam_text_def sire_text_def born_on_text_def signed_on_text_def entered_into_text_def by_and_between_text_def health_guarantee_text_def agreement_dated_text_def full_rights_text_def pet_sale_text_def consideration_text_def purpose_text_def no_registration_text_def notary_text_def buyer_affirms_text_def
      py_in_ascii py_in_ascii_split[OF above_Latin1] literal_eval)

lemma in_by_and_between:
    "\<not> py_in (ascii ''By and between'') dam_text"
    "\<not> py_in (ascii ''By and between'') sire_text"
    "\<not> py_in (ascii ''By and between'') born_on_text"
    "\<not> py_in (ascii ''By and between'') signed_on_text"
    "\<not> py_in (ascii ''By and between'') entered_into_text"
    "\<not> py_in (ascii ''By and between'') (ascii ''This Agreement is made and entered into this ______ day of'')"
    "py_in (ascii ''By and between'') (ascii ''By and between'')"
    "py_in (ascii ''By and between'') by_and_between_text"
  by (simp_all only: dam_text_def sire_text_def born_on_text_def signed_on_text_def entered_into_text_def by_and_between_text_def
      py_in_ascii py_in_ascii_split[OF above_Latin1] literal_eval)

lemma in_purpose:
    "\<not> py_in (ascii ''For the purpose of setting forth the terms'') dam_text"
    "\<not> py_in (ascii ''For the purpose of setting forth the terms'') sire_text"
    "\<not> py_in (ascii ''For the purpose of setting forth the terms'') born_on_text"
    "\<not> py_in (ascii ''For the purpose of setting forth the terms'') signed_on_text"
    "\<not> py_in (ascii ''For the purpose of setting forth the terms'') entered_into_text"
    "\<not> py_in (ascii ''For the purpose of setting forth the terms'') (ascii ''This Agreement is made and entered into this ______ day of'')"
    "\<not> py_in (ascii ''For the purpose of setting forth the terms'') by_and_between_text"
    "\<not> py_in (ascii ''For the purpose of setting forth the terms'') health_guarantee_text"
    "\<not> py_in (ascii ''For the purpose of setting forth the terms'') agreement_dated_text"
    "\<not> py_in (ascii ''For the purpose of setting forth the terms'') full_rights_text"
    "\<not> py_in (ascii ''For the purpose of setting forth the terms'') pet_sale_text"
    "\<not> py_in (ascii ''For the purpose of setting forth the terms'') consideration_text"
    "py_in (ascii ''For the purpose of setting forth the terms'') (ascii ''For the purpose of setting forth the terms'')"
    "py_in (ascii ''For the purpose of setting forth the terms'') purpose_text"
  by (simp_all only: dam_text_def sire_text_def born_on_text_def signed_on_text_def entered_into_text_def by_and_between_text_def health_guarantee_text_def agreement_dated_text_def full_rights_text_def pet_sale_text_def consideration_text_def purpose_text_def
      py_in_ascii py_in_ascii_split[OF above_Latin1] literal_eval)

lemmas text_facts =
  in_agreement_dated in_consideration in_born_on in_sire in_dam
  in_pet_sale in_full_rights in_no_registration in_buyer_affirms in_health_guarantee
  in_state_of in_signed_on in_notary in_entered_into in_by_and_between
  in_purpose
  state_of_absent

lemma hd_ascii: "hd (ascii (c # cs)) = of_char c" "ascii (c # cs) \<noteq> []"
  by (simp_all add: ascii_def)

lemma hd_ascii_append: "hd (ascii (c # cs) @ r) = of_char c"
  by (simp add: ascii_def)

lemma normalize_dam_text:
  "normalize_paragraph \<lparr>pelem = i, ptext = dam_text\<rparr> =
     \<lparr>pelem = i, ptext = dam_text\<rparr>"
  by (rule normalize_keep) (simp_all add: dam_text_def hd_ascii hd_ascii_append py_isspace_def)

lemma normalize_sire_text:
  "normalize_paragraph \<lparr>pelem = i, ptext = sire_text\<rparr> =
     \<lparr>pelem = i, ptext = sire_text\<rparr>"
  by (simp add: normalize_paragraph_def Let_def sire_text_def ascii_def py_replace_def py_strip_def
      py_isspace_def py_startswith_def)

lemma normalize_born_on_text:
  "normalize_paragraph \<lparr>pelem = i, ptext = born_on_text\<rparr> =
     \<lparr>pelem = i, ptext = born_on_text\<rparr>"
  by (rule normalize_keep) (simp_all add: born_on_text_def hd_ascii hd_ascii_append py_isspace_def)

lemma normalize_signed_on_text:
  "normalize_paragraph \<lparr>pelem = i, ptext = signed_on_text\<rparr> =
     \<lparr>pelem = i, ptext = signed_on_text\<rparr>"
  by (simp add: normalize_paragraph_def Let_def signed_on_text_def ascii_def py_replace_def py_strip_def
      py_isspace_def py_startswith_def)

lemma normalize_entered_into_text:
  "normalize_paragraph \<lparr>pelem = i, ptext = entered_into_text\<rparr> =
     \<lparr>pelem = i, ptext = entered_into_text\<rparr>"
  by (rule normalize_keep) (simp_all add: entered_into_text_def hd_ascii hd_ascii_append py_isspace_def)

lemma normalize_entered_into_needle:
  "normalize_paragraph \<lparr>pelem = i, ptext = ascii ''This Agreement is made and entered into this ______ day of''\<rparr> =
     \<lparr>pelem = i, ptext = ascii ''This Agreement is made and entered into this ______ day of''\<rparr>"
  by (rule normalize_keep) (simp_all add: hd_ascii hd_ascii_append py_isspace_def)

lemma normalize_by_and_between_text:
  "normalize_paragraph \<lparr>pelem = i, ptext = by_and_between_text\<rparr> =
     \<lparr>pelem = i, ptext = by_and_between_text\<rparr>"
  by (rule normalize_keep) (simp_all add: by_and_between_text_def hd_ascii hd_ascii_append py_isspace_def)

lemma normalize_health_guarantee_text:
  "normalize_paragraph \<lparr>pelem = i, ptext = health_guarantee_text\<rparr> =
     \<lparr>pelem = i, ptext = health_guarantee_text\<rparr>"
  by (rule normalize_keep) (simp_all add: health_guarantee_text_def hd_ascii hd_ascii_append py_isspace_def)

lemma normalize_agreement_dated_text:
  "normalize_paragraph \<lparr>pelem = i, ptext = agreement_dated_text\<rparr> =
     \<lparr>pelem = i, ptext = agreement_dated_text\<rparr>"
  by (rule normalize_keep) (simp_all add: agreement_dated_text_def hd_ascii hd_ascii_append py_isspace_def)

lemma normalize_full_rights_text:
  "normalize_paragraph \<lparr>pelem = i, ptext = full_rights_text\<rparr> =
     \<lparr>pelem = i, ptext = full_rights_text\<rparr>"
  by (rule normalize_keep) (simp_all add: full_rights_text_def hd_ascii hd_ascii_append py_isspace_def)

lemma normalize_pet_sale_text:
  "normalize_paragraph \<lparr>pelem = i, ptext = pet_sale_text\<rparr> =
     \<lparr>pelem = i, ptext = pet_sale_text\<rparr>"
  by (rule normalize_keep) (simp_all add: pet_sale_text_def hd_ascii hd_ascii_append py_isspace_def)

lemma normalize_consideration_text:
  "normalize_paragraph \<lparr>pelem = i, ptext = consideration_text\<rparr> =
     \<lparr>pelem = i, ptext = consideration_text\<rparr>"
  by (rule normalize_keep) (simp_all add: consideration_text_def hd_ascii hd_ascii_append py_isspace_def)

lemma normalize_purpose_text:
  "normalize_paragraph \<lparr>pelem = i, ptext = purpose_text\<rparr> =
     \<lparr>pelem = i, ptext = purpose_text\<rparr>"
  by (rule normalize_keep) (simp_all add: purpose_text_def hd_ascii hd_ascii_append py_isspace_def)

lemma normalize_no_registration_text:
  "normalize_paragraph \<lparr>pelem = i, ptext = no_registration_text\<rparr> =
     \<lparr>pelem = i, ptext = no_registration_text\<rparr>"
  by (rule normalize_keep) (simp_all add: no_registration_text_def hd_ascii hd_ascii_append py_isspace_def)

lemma normalize_no_registration_needle:
  "normalize_paragraph \<lparr>pelem = i, ptext = ascii ''If No Registration''\<rparr> =
     \<lparr>pelem = i, ptext = ascii ''If No Registration''\<rparr>"
  by (rule normalize_keep) (simp_all add: hd_ascii hd_ascii_append py_isspace_def)

lemma normalize_notary_text:
  "normalize_paragraph \<lparr>pelem = i, ptext = notary_text\<rparr> =
     \<lparr>pelem = i, ptext = notary_text\<rparr>"
  by (rule normalize_keep) (simp_all add: notary_text_def hd_ascii hd_ascii_append py_isspace_def)

lemma normalize_notary_needle:
  "normalize_paragraph \<lparr>pelem = i, ptext = ascii ''On this _____ day of _________''\<rparr> =
     \<lparr>pelem = i, ptext = ascii ''On this _____ day of _________''\<rparr>"
  by (rule normalize_keep) (simp_all add: hd_ascii hd_ascii_append py_isspace_def)

lemma normalize_buyer_affirms_text:
  "normalize_paragraph \<lparr>pelem = i, ptext = buyer_affirms_text\<rparr> =
     \<lparr>pelem = i, ptext = buyer_affirms_text\<rparr>"
  by (rule normalize_keep) (simp_all add: buyer_affirms_text_def hd_ascii hd_ascii_append py_isspace_def)

lemmas normalize_facts =
  normalize_dam_text normalize_sire_text normalize_born_on_text
  normalize_signed_on_text normalize_entered_into_text normalize_entered_into_needle
  normalize_by_and_between_text normalize_health_guarantee_text normalize_agreement_dated_text
  normalize_full_rights_text normalize_pet_sale_text normalize_consideration_text
  normalize_purpose_text normalize_no_registration_text normalize_no_registration_needle
  normalize_notary_text normalize_notary_needle normalize_buyer_affirms_text

lemma main_contract_with_repeats:
  "main contract_with_repeats True =
    (Returned,
     [\<lparr>pelem = 0, ptext = dam_text\<rparr>,
      \<lparr>pelem = 1, ptext = sire_text\<rparr>,
      \<lparr>pelem = 2, ptext = born_on_text\<rparr>,
      \<lparr>pelem = 3, ptext = signed_on_text\<rparr>,
      \<lparr>pelem = 4, ptext = entered_into_text\<rparr>,
      \<lparr>pelem = 5, ptext = ascii ''This Agreement is made and entered into this ______ day of''\<rparr>,
      \<lparr>pelem = 6, ptext = by_and_between_text\<rparr>,
      \<lparr>pelem = 7, ptext = health_guarantee_text\<rparr>,
      \<lparr>pelem = 8, ptext = agreement_dated_text\<rparr>,
      \<lparr>pelem = 9, ptext = full_rights_text\<rparr>,
      \<lparr>pelem = 10, ptext = pet_sale_text\<rparr>,
      \<lparr>pelem = 11, ptext = consideration_text\<rparr>,
      \<lparr>pelem = 12, ptext = purpose_text\<rparr>,
      \<lparr>pelem = 13, ptext = no_registration_text\<rparr>,
      \<lparr>pelem = 14, ptext = ascii ''If No Registration''\<rparr>,
      \<lparr>pelem = 15, ptext = notary_text\<rparr>,
      \<lparr>pelem = 16, ptext = ascii ''On this _____ day of _________''\<rparr>,
      \<lparr>pelem = 17, ptext = buyer_affirms_text\<rparr>],
     [[\<lparr>pelem = 0, ptext = dam_text\<rparr>,
       \<lparr>pelem = 1, ptext = sire_text\<rparr>,
       \<lparr>pelem = 2, ptext = born_on_text\<rparr>,
       \<lparr>pelem = 3, ptext = signed_on_text\<rparr>,
       \<lparr>pelem = 4, ptext = entered_into_text\<rparr>,
       \<lparr>pelem = 5, ptext = ascii ''This Agreement is made and entered into this ______ day of''\<rparr>,
       \<lparr>pelem = 6, ptext = by_and_between_text\<rparr>,
       \<lparr>pelem = 7, ptext = health_guarantee_text\<rparr>,
       \<lparr>pelem = 8, ptext = agreement_dated_text\<rparr>,
       \<lparr>pelem = 9, ptext = full_rights_text\<rparr>,
       \<lparr>pelem = 10, ptext = pet_sale_text\<rparr>,
       \<lparr>pelem = 11, ptext = consideration_text\<rparr>,
       \<lparr>pelem = 12, ptext = purpose_text\<rparr>,
       \<lparr>pelem = 13, ptext = no_registration_text\<rparr>,
       \<lparr>pelem = 14, ptext = ascii ''If No Registration''\<rparr>,
       \<lparr>pelem = 15, ptext = notary_text\<rparr>,
       \<lparr>pelem = 16, ptext = ascii ''On this _____ day of _________''\<rparr>,
       \<lparr>pelem = 17, ptext = buyer_affirms_text\<rparr>]])"
  by (simp add: main_def Let_def main_calls_def contract_with_repeats_def replace_paragraph_contains_def
      replace_text_in_paragraph_def text_facts normalize_facts)

lemma main_contract_with_repeats_again:
  "main 
     [\<lparr>pelem = 0, ptext = dam_text\<rparr>,
      \<lparr>pelem = 1, ptext = sire_text\<rparr>,
      \<lparr>pelem = 2, ptext = born_on_text\<rparr>,
      \<lparr>pelem = 3, ptext = signed_on_text\<rparr>,
      \<lparr>pelem = 4, ptext = entered_into_text\<rparr>,
      \<lparr>pelem = 5, ptext = ascii ''This Agreement is made and entered into this ______ day of''\<rparr>,
      \<lparr>pelem = 6, ptext = by_and_between_text\<rparr>,
      \<lparr>pelem = 7, ptext = health_guarantee_text\<rparr>,
      \<lparr>pelem = 8, ptext = agreement_dated_text\<rparr>,
      \<lparr>pelem = 9, ptext = full_rights_text\<rparr>,
      \<lparr>pelem = 10, ptext = pet_sale_text\<rparr>,
      \<lparr>pelem = 11, ptext = consideration_text\<rparr>,
      \<lparr>pelem = 12, ptext = purpose_text\<rparr>,
      \<lparr>pelem = 13, ptext = no_registration_text\<rparr>,
      \<lparr>pelem = 14, ptext = ascii ''If No Registration''\<rparr>,
      \<lparr>pelem = 15, ptext = notary_text\<rparr>,
      \<lparr>pelem = 16, ptext = ascii ''On this _____ day of _________''\<rparr>,
      \<lparr>pelem = 17, ptext = buyer_affirms_text\<rparr>] True =
    (Returned,
     [\<lparr>pelem = 0, ptext = dam_text\<rparr>,
      \<lparr>pelem = 1, ptext = sire_text\<rparr>,
      \<lparr>pelem = 2, ptext = born_on_text\<rparr>,
      \<lparr>pelem = 3, ptext = signed_on_text\<rparr>,
      \<lparr>pelem = 4, ptext = entered_into_text\<rparr>,
      \<lparr>pelem = 5, ptext = entered_into_text\<rparr>,
      \<lparr>pelem = 6, ptext = by_and_between_text\<rparr>,
      \<lparr>pelem = 7, ptext = health_guarantee_text\<rparr>,
      \<lparr>pelem = 8, ptext = agreement_dated_text\<rparr>,
      \<lparr>pelem = 9, ptext = full_rights_text\<rparr>,
      \<lparr>pelem = 10, ptext = pet_sale_text\<rparr>,
      \<lparr>pelem = 11, ptext = consideration_text\<rparr>,
      \<lparr>pelem = 12, ptext = purpose_text\<rparr>,
      \<lparr>pelem = 13, ptext = no_registration_text\<rparr>,
      \<lparr>pelem = 14, ptext = no_registration_text\<rparr>,
      \<lparr>pelem = 15, ptext = notary_text\<rparr>,
      \<lparr>pelem = 16, ptext = notary_text\<rparr>,
      \<lparr>pelem = 17, ptext = buyer_affirms_text\<rparr>],
     [[\<lparr>pelem = 0, ptext = dam_text\<rparr>,
       \<lparr>pelem = 1, ptext = sire_text\<rparr>,
       \<lparr>pelem = 2, ptext = born_on_text\<rparr>,
       \<lparr>pelem = 3, ptext = signed_on_text\<rparr>,
       \<lparr>pelem = 4, ptext = entered_into_text\<rparr>,
       \<lparr>pelem = 5, ptext = entered_into_text\<rparr>,
       \<lparr>pelem = 6, ptext = by_and_between_text\<rparr>,
       \<lparr>pelem = 7, ptext = health_guarantee_text\<rparr>,
       \<lparr>pelem = 8, ptext = agreement_dated_text\<rparr>,
       \<lparr>pelem = 9, ptext = full_rights_text\<rparr>,
       \<lparr>pelem = 10, ptext = pet_sale_text\<rparr>,
       \<lparr>pelem = 11, ptext = consideration_text\<rparr>,
       \<lparr>pelem = 12, ptext = purpose_text\<rparr>,
       \<lparr>pelem = 13, ptext = no_registration_text\<rparr>,
       \<lparr>pelem = 14, ptext = no_registration_text\<rparr>,
       \<lparr>pelem = 15, ptext = notary_text\<rparr>,
       \<lparr>pelem = 16, ptext = notary_text\<rparr>,
       \<lparr>pelem = 17, ptext = buyer_affirms_text\<rparr>]])"
  by (simp add: main_def Let_def main_calls_def replace_paragraph_contains_def
      replace_text_in_paragraph_def text_facts normalize_facts)

lemma main_contract_with_one_repeat:
  "main contract_with_one_repeat True =
    (Returned,
     [\<lparr>pelem = 0, ptext = dam_text\<rparr>,
      \<lparr>pelem = 1, ptext = sire_text\<rparr>,
      \<lparr>pelem = 2, ptext = born_on_text\<rparr>,
      \<lparr>pelem = 3, ptext = signed_on_text\<rparr>,
      \<lparr>pelem = 4, ptext = entered_into_text\<rparr>,
      \<lparr>pelem = 5, ptext = by_and_between_text\<rparr>,
      \<lparr>pelem = 6, ptext = health_guarantee_text\<rparr>,
      \<lparr>pelem = 7, ptext = agreement_dated_text\<rparr>,
      \<lparr>pelem = 8, ptext = full_rights_text\<rparr>,
      \<lparr>pelem = 9, ptext = pet_sale_text\<rparr>,
      \<lparr>pelem = 10, ptext = consideration_text\<rparr>,
      \<lparr>pelem = 11, ptext = purpose_text\<rparr>,
      \<lparr>pelem = 12, ptext = no_registration_text\<rparr>,
      \<lparr>pelem = 13, ptext = ascii ''If No Registration''\<rparr>,
      \<lparr>pelem = 14, ptext = notary_text\<rparr>,
      \<lparr>pelem = 15, ptext = buyer_affirms_text\<rparr>],
     [[\<lparr>pelem = 0, ptext = dam_text\<rparr>,
       \<lparr>pelem = 1, ptext = sire_text\<rparr>,
       \<lparr>pelem = 2, ptext = born_on_text\<rparr>,
       \<lparr>pelem = 3, ptext = signed_on_text\<rparr>,
       \<lparr>pelem = 4, ptext = entered_into_text\<rparr>,
       \<lparr>pelem = 5, ptext = by_and_between_text\<rparr>,
       \<lparr>pelem = 6, ptext = health_guarantee_text\<rparr>,
       \<lparr>pelem = 7, ptext = agreement_dated_text\<rparr>,
       \<lparr>pelem = 8, ptext = full_rights_text\<rparr>,
       \<lparr>pelem = 9, ptext = pet_sale_text\<rparr>,
       \<lparr>pelem = 10, ptext = consideration_text\<rparr>,
       \<lparr>pelem = 11, ptext = purpose_text\<rparr>,
       \<lparr>pelem = 12, ptext = no_registration_text\<rparr>,
       \<lparr>pelem = 13, ptext = ascii ''If No Registration''\<rparr>,
       \<lparr>pelem = 14, ptext = notary_text\<rparr>,
       \<lparr>pelem = 15, ptext = buyer_affirms_text\<rparr>]])"
  by (simp add: main_def Let_def main_calls_def contract_with_one_repeat_def replace_paragraph_contains_def
      replace_text_in_paragraph_def text_facts normalize_facts)

lemma nbsp_char: "[160] = ascii [CHR 0xA0]"
  by (simp add: ascii_def)

lemma nbsp_free:
    "160 \<notin> set dam_text"
    "160 \<notin> set sire_text"
    "160 \<notin> set born_on_text"
    "160 \<notin> set signed_on_text"
    "160 \<notin> set entered_into_text"
    "160 \<notin> set by_and_between_text"
    "160 \<notin> set health_guarantee_text"
    "160 \<notin> set agreement_dated_text"
    "160 \<notin> set full_rights_text"
    "160 \<notin> set pet_sale_text"
    "160 \<notin> set consideration_text"
    "160 \<notin> set purpose_text"
    "160 \<notin> set no_registration_text"
    "160 \<notin> set notary_text"
    "160 \<notin> set buyer_affirms_text"
    "160 \<notin> set (ascii ''Dam:'')"
    "160 \<notin> set (ascii ''Sire:'')"
    "160 \<notin> set (ascii ''Born on'')"
    "160 \<notin> set (ascii ''Signed on'')"
    "160 \<notin> set (ascii ''This Agreement is made and entered into this ______ day of'')"
    "160 \<notin> set (ascii ''By and between'')"
    "160 \<notin> set (ascii ''The General Health Guarantee'')"
    "160 \<notin> set (ascii ''This Agreement dated'')"
    "160 \<notin> set (ascii ''The puppy is sold with breeding rights'')"
    "160 \<notin> set (ascii ''The puppy is sold as a pet'')"
    "160 \<notin> set (ascii ''In Consideration of the total sum'')"
    "160 \<notin> set (ascii ''For the purpose of setting forth the terms'')"
    "160 \<notin> set (ascii ''If No Registration'')"
    "160 \<notin> set (ascii ''On this _____ day of _________'')"
    "160 \<notin> set (ascii ''The Buyer affirms that their purchase'')"
  by (simp_all only: py_in_singleton[symmetric] nbsp_char
      dam_text_def sire_text_def born_on_text_def signed_on_text_def
      entered_into_text_def by_and_between_text_def health_guarantee_text_def agreement_dated_text_def
      full_rights_text_def pet_sale_text_def consideration_text_def purpose_text_def
      no_registration_text_def notary_text_def buyer_affirms_text_def
      py_in_ascii py_in_ascii_split[OF above_Latin1] literal_eval)

section \<open>Where a needle can come from\<close>

lemma nbsp_map:
  "py_replace t [160] (ascii '' '') = map (\<lambda>c. if c = 160 then 32 else c) t"
proof -
  have "py_replace_scan t [160] [32] = map (\<lambda>c. if c = 160 then 32 else c) t"
    by (induction t) simp_all
  then show ?thesis by (simp add: py_replace_def ascii_def)
qed

lemma nbsp_gone: "160 \<notin> set (py_replace t [160] (ascii '' ''))"
  by (auto simp: nbsp_map)

lemma nbsp_map_id: "160 \<notin> set t \<Longrightarrow> map (\<lambda>c. if c = 160 then 32 else c) t = (t :: pystr)"
  by (induction t) auto

lemma nbsp_absent: "160 \<notin> set t \<Longrightarrow> py_replace t [160] (ascii '' '') = t"
  by (simp add: nbsp_map nbsp_map_id)

lemma py_in_trans: "py_in a b \<Longrightarrow> py_in b c \<Longrightarrow> py_in a c"
  unfolding py_in_sublist sublist_def by (metis append.assoc)

lemma py_in_map: "py_in n t \<Longrightarrow> py_in (map f n) (map f t)"
  unfolding py_in_sublist sublist_def by (metis map_append)

lemma holds_needle_mono: "py_in g t \<Longrightarrow> holds_needle n g \<Longrightarrow> holds_needle n t"
  unfolding holds_needle_def nbsp_map using py_in_map py_in_trans by blast

lemma holds_needle_plain: "160 \<notin> set t \<Longrightarrow> holds_needle n t = py_in n t"
  by (simp add: holds_needle_def nbsp_absent)

lemma py_in_holds: "160 \<notin> set n \<Longrightarrow> py_in n t \<Longrightarrow> holds_needle n t"
  unfolding holds_needle_def nbsp_map
  using py_in_map[of n t "\<lambda>c. if c = 160 then 32 else c"] by (simp add: nbsp_map_id)

lemma py_in_insert:
  assumes "new \<noteq> []" "hd new \<notin> set n" "last new \<notin> set n" "\<not> py_in n new"
    and "py_in n (a @ new @ b)"
  shows "py_in n a \<or> py_in n b"
proof (cases "tl new")
  case Nil
  with assms(1) have "new = [hd new]" by (cases new) auto
  then have "a @ new @ b = a @ hd new # b" by (metis append_Cons append_Nil)
  with assms(2,5) py_in_split[of "hd new" n a b] show ?thesis by simp
next
  case (Cons y ys)
  then have "tl new \<noteq> []" by simp
  then have new: "new = hd new # butlast (tl new) @ [last new]"
    using assms(1) by (metis append_butlast_last_id last_tl list.collapse)
  have "a @ new @ b = a @ hd new # (butlast (tl new) @ last new # b)"
    by (subst new) simp
  with assms(2,5) py_in_split[of "hd new" n a "butlast (tl new) @ last new # b"]
  have "py_in n a \<or> py_in n (butlast (tl new) @ last new # b)" by simp
  moreover have "py_in (butlast (tl new)) new"
    unfolding py_in_sublist sublist_def by (metis new append_Cons append_Nil)
  then have "\<not> py_in n (butlast (tl new))" using assms(4) py_in_trans by blast
  ultimately show ?thesis
    using py_in_split[OF assms(3), of "butlast (tl new)" b] by auto
qed

lemma py_in_join:
  assumes "new \<noteq> []" "hd new \<notin> set n" "last new \<notin> set n" "\<not> py_in n new"
  shows "py_in n (join_with new segs) \<Longrightarrow> \<exists>g\<in>set segs. py_in n g"
proof (induction segs rule: induct_list012)
  case 1
  then show ?case using assms(1,4) by (cases n) simp_all
next
  case (2 s)
  then show ?case by simp
next
  case (3 s t ts)
  from 3(3) have "py_in n (s @ new @ join_with new (t # ts))" by simp
  from py_in_insert[OF assms this] 3(2) show ?case by auto
qed

lemma segment_in_join: "g \<in> set segs \<Longrightarrow> py_in g (join_with sep segs)"
proof (induction sep segs rule: join_with.induct)
  case (1 sep)
  then show ?case by simp
next
  case (2 sep s)
  then show ?case by (simp add: py_in_sublist)
next
  case (3 sep s t ts)
  show ?case
  proof (cases "g = s")
    case True
    then show ?thesis by (simp add: py_in_sublist)
  next
    case False
    with 3 have "py_in g (join_with sep (t # ts))" by simp
    moreover have "py_in (join_with sep (t # ts)) (s @ sep @ join_with sep (t # ts))"
      unfolding py_in_sublist sublist_def by (metis append.assoc append_Nil2)
    ultimately show ?thesis using py_in_trans by simp blast
  qed
qed

lemma map_join_with:
  "map f (join_with sep segs) = join_with (map f sep) (map (map f) segs)"
  by (induction sep segs rule: join_with.induct) simp_all

lemma py_replace_keeps_out:
  assumes "new \<noteq> []" "hd new \<notin> set n" "last new \<notin> set n" "\<not> py_in n new" "160 \<notin> set new"
    and "holds_needle n (py_replace t old new)"
  shows "holds_needle n t"
proof -
  let ?f = "\<lambda>c::nat. if c = 160 then 32 else c"
  from py_replace_split[of old t new] obtain segs
    where t: "t = join_with old segs" and r: "py_replace t old new = join_with new segs"
    by (auto simp: occurrence_split_def)
  have "map ?f new = new" using assms(5) by (rule nbsp_map_id)
  with assms(6) r have "py_in n (join_with new (map (map ?f) segs))"
    by (simp add: holds_needle_def nbsp_map map_join_with)
  from py_in_join[OF assms(1-4) this] obtain g where g: "g \<in> set segs" "py_in n (map ?f g)"
    by auto
  then have "holds_needle n g" by (simp add: holds_needle_def nbsp_map)
  with segment_in_join[OF g(1), of old] t show ?thesis
    using holds_needle_mono by blast
qed

lemma py_in_dropWhile: "py_in (dropWhile P s) s"
  unfolding py_in_sublist by (metis suffix_dropWhile suffix_imp_sublist)

lemma py_in_strip: "py_in (py_strip s) s"
proof -
  let ?y = "dropWhile py_isspace s"
  have "?y = rev (dropWhile py_isspace (rev ?y)) @ rev (takeWhile py_isspace (rev ?y))"
    by (metis rev_append rev_rev_ident takeWhile_dropWhile_id)
  then have "prefix (py_strip s) ?y" unfolding py_strip_def by (metis prefixI)
  then have "py_in (py_strip s) ?y" unfolding py_in_sublist by (rule prefix_imp_sublist)
  with py_in_dropWhile[of py_isspace s] show ?thesis using py_in_trans by blast
qed

lemma normalize_paragraph_none:
  assumes "\<not> (py_startswith (py_strip (py_replace (ptext p) [160] (ascii '' ''))) (ascii ''STATE OF'') \<and>
            py_in (ascii '')'') (py_strip (py_replace (ptext p) [160] (ascii '' ''))))"
    and "\<not> (py_startswith (py_strip (py_replace (ptext p) [160] (ascii '' ''))) (ascii ''COUNTY'') \<and>
            py_in (ascii '')SS'') (py_strip (py_replace (ptext p) [160] (ascii '' ''))))"
  shows "normalize_paragraph p = p"
  unfolding normalize_paragraph_def Let_def if_not_P[OF assms(1)] if_not_P[OF assms(2)] ..

lemma normalize_paragraph_keeps_out:
  assumes n: "n \<noteq> []" "hd n \<noteq> 32" "125 \<notin> set n"
    and st: "\<not> py_in n (ascii ''STATE OF {state'')"
    and co: "\<not> py_in n (ascii ''COUNTY OF {county} )SS.:'')"
    and h: "holds_needle n (ptext (normalize_paragraph p))"
  shows "holds_needle n (ptext p)"
proof -
  let ?x = "py_replace (ptext p) [160] (ascii '' '')"
  let ?s = "py_strip ?x"
  consider (county) "py_startswith ?s (ascii ''COUNTY'')" "py_in (ascii '')SS'') ?s"
    | (state) "py_startswith ?s (ascii ''STATE OF'')" "py_in (ascii '')'') ?s"
    | (none) "normalize_paragraph p = p"
    using normalize_paragraph_none[of p] by blast
  then show ?thesis
  proof cases
    case county
    have "160 \<notin> set (ascii ''COUNTY OF {county} )SS.:'')" by (simp add: ascii_def)
    with h co normalize_paragraph_county[OF county] show ?thesis
      by (simp add: holds_needle_plain)
  next
    case state
    let ?suf = "dropWhile (\<lambda>x. x \<noteq> 41) ?s"
    have suf: "py_in ?suf ?x" using py_in_dropWhile py_in_strip py_in_trans by blast
    then have "set ?suf \<subseteq> set ?x"
      unfolding py_in_sublist by (auto dest: set_mono_sublist)
    then have no: "160 \<notin> set ?suf" using nbsp_gone by blast
    have split: "ascii ''STATE OF {state} '' @ ?suf = ascii ''STATE OF {state'' @ 125 # (32 # ?suf)"
      by (simp add: ascii_def)
    have "160 \<notin> set (ascii ''STATE OF {state} '' @ ?suf)" using no by (simp add: ascii_def)
    with h normalize_paragraph_state[OF state]
    have "py_in n (ascii ''STATE OF {state} '' @ ?suf)" by (simp add: holds_needle_plain)
    with py_in_split[OF n(3), of "ascii ''STATE OF {state''" "32 # ?suf"] st
    have "py_in n (32 # ?suf)" unfolding split by simp
    moreover have "\<not> prefix n (32 # ?suf)" using n(1,2) by (cases n) (auto simp: prefix_Cons)
    ultimately have "py_in n ?suf" by simp
    with suf have "py_in n ?x" using py_in_trans by blast
    then show ?thesis by (simp add: holds_needle_def)
  next
    case none
    with h show ?thesis by simp
  qed
qed


section \<open>Running the engine on its own output\<close>

lemma no_new_holder_refl: "no_new_holder n d d"
  by (simp add: no_new_holder_def)

lemma no_new_holder_trans:
  "no_new_holder n d d' \<Longrightarrow> no_new_holder n d' d'' \<Longrightarrow> no_new_holder n d d''"
  by (simp add: no_new_holder_def)

lemma no_new_holder_absent:
  "no_new_holder n d d' \<Longrightarrow> \<forall>p\<in>set d. \<not> holds_needle n (ptext p) \<Longrightarrow>
   \<forall>p\<in>set d'. \<not> holds_needle n (ptext p)"
  unfolding no_new_holder_def by (metis in_set_conv_nth nth_mem)

lemma replace_paragraph_contains_no_new_holder:
  assumes "\<not> holds_needle n r"
  shows "no_new_holder n d (snd (replace_paragraph_contains d m r))"
proof (cases "replace_paragraph_contains_loop d m r")
  case None
  then show ?thesis by (simp add: replace_paragraph_contains_def no_new_holder_refl)
next
  case (Some d')
  from rpc_loop_Some[OF Some] obtain i where i: "i < length d" "d' = d[i := (d ! i)\<lparr>ptext := r\<rparr>]"
    by blast
  have "holds_needle n (ptext (d' ! j)) \<longrightarrow> holds_needle n (ptext (d ! j))" if "j < length d" for j
    using assms i that by (cases "j = i") simp_all
  with i Some show ?thesis
    by (simp add: replace_paragraph_contains_def no_new_holder_def)
qed

lemma replace_text_in_paragraph_no_new_holder:
  assumes "keeps_out n (Replace_text_in_paragraph m r)"
  shows "no_new_holder n d (snd (replace_text_in_paragraph d m r))"
proof -
  from assms have k: "r \<noteq> []" "hd r \<notin> set n" "last r \<notin> set n" "\<not> py_in n r" "160 \<notin> set r"
    by simp_all
  show ?thesis
    using py_replace_keeps_out[OF k]
    by (auto simp: replace_text_in_paragraph_def no_new_holder_def rtp_loop_nth)
qed

lemma run_call_no_new_holder: "keeps_out n c \<Longrightarrow> no_new_holder n d (snd (run_call c d))"
proof (cases c)
  case (Replace_paragraph_contains m r)
  assume "keeps_out n c"
  with Replace_paragraph_contains show ?thesis
    by (simp add: replace_paragraph_contains_no_new_holder)
next
  case (Replace_text_in_paragraph m r)
  assume "keeps_out n c"
  with Replace_text_in_paragraph show ?thesis
    using replace_text_in_paragraph_no_new_holder[of n m r d] by simp
qed

lemma run_calls_no_new_holder:
  "\<forall>c\<in>set cs. keeps_out n c \<Longrightarrow> no_new_holder n d (snd (run_calls cs d))"
proof (induction cs arbitrary: d)
  case Nil
  then show ?case by (simp add: no_new_holder_refl)
next
  case (Cons c cs)
  obtain out d1 where c: "run_call c d = (out, d1)" by (cases "run_call c d")
  have 1: "no_new_holder n d d1" using run_call_no_new_holder[of n c d] Cons.prems c by simp
  show ?case
  proof (cases out)
    case Returned
    with c Cons.IH[of d1] Cons.prems 1 show ?thesis
      by (auto intro: no_new_holder_trans)
  next
    case (Raised e)
    with c 1 show ?thesis by simp
  qed
qed

lemma run_call_raises_ValueError: "run_call c d = (Raised e, d') \<Longrightarrow> \<exists>m. e = ValueError m"
  by (cases c)
     (auto simp: replace_paragraph_contains_def replace_text_in_paragraph_def split: option.splits)

lemma run_calls_raises_ValueError:
  "run_calls cs d = (Raised e, d') \<Longrightarrow> \<exists>m. e = ValueError m"
proof (induction cs arbitrary: d)
  case Nil
  then show ?case by simp
next
  case (Cons c cs)
  obtain out d1 where c: "run_call c d = (out, d1)" by (cases "run_call c d")
  show ?case
  proof (cases out)
    case Returned
    with c Cons show ?thesis by simp
  next
    case (Raised e')
    with c Cons.prems run_call_raises_ValueError[of c d e' d1] show ?thesis by simp
  qed
qed

lemma normalization_scan_no_new_holder:
  assumes "n \<noteq> []" "hd n \<noteq> 32" "125 \<notin> set n"
    and "\<not> py_in n (ascii ''STATE OF {state'')"
    and "\<not> py_in n (ascii ''COUNTY OF {county} )SS.:'')"
  shows "no_new_holder n d (normalization_scan d)"
  using normalize_paragraph_keeps_out[OF assms]
  by (simp add: no_new_holder_def normalization_scan_map)

lemma at_most_one:
  "length (filter P xs) \<le> 1 \<Longrightarrow> i < length xs \<Longrightarrow> j < length xs \<Longrightarrow>
   P (xs ! i) \<Longrightarrow> P (xs ! j) \<Longrightarrow> i = j"
proof (induction xs arbitrary: i j)
  case Nil
  then show ?case by simp
next
  case (Cons x xs)
  have none: "P x \<Longrightarrow> k < length xs \<Longrightarrow> \<not> P (xs ! k)" for k
  proof
    assume "P x" "k < length xs" "P (xs ! k)"
    then have "filter P xs \<noteq> []" by (auto simp: filter_empty_conv)
    with \<open>P x\<close> Cons.prems(1) show False by simp
  qed
  show ?case
  proof (cases i; cases j)
    fix i' j' assume ij: "i = Suc i'" "j = Suc j'"
    have "length (filter P xs) \<le> 1" using Cons.prems(1) by (simp split: if_splits)
    from Cons.IH[OF this, of i' j'] Cons.prems ij show ?thesis by simp
  qed (use Cons.prems none in auto)
qed

lemma own_call_clears:
  assumes n: "160 \<notin> set n" and r: "\<not> holds_needle n r"
    and one: "length (filter (\<lambda>p. holds_needle n (ptext p)) d) \<le> 1"
    and ret: "replace_paragraph_contains d n r = (Returned, d')"
  shows "\<forall>p\<in>set d'. \<not> holds_needle n (ptext p)"
proof -
  from ret obtain dd where loop: "replace_paragraph_contains_loop d n r = Some dd"
    by (auto simp: replace_paragraph_contains_def split: option.splits)
  with ret have dd: "dd = d'" by (simp add: replace_paragraph_contains_def)
  from rpc_loop_Some[OF loop] dd obtain i where i: "i < length d" "py_in n (ptext (d ! i))"
    "d' = d[i := (d ! i)\<lparr>ptext := r\<rparr>]" by blast
  from i(2) have hi: "holds_needle n (ptext (d ! i))" by (rule py_in_holds[OF n])
  show ?thesis
  proof
    fix p assume "p \<in> set d'"
    then obtain j where j: "j < length d" "p = d' ! j"
      using i(3) by (auto simp: in_set_conv_nth)
    show "\<not> holds_needle n (ptext p)"
    proof (cases "j = i")
      case True
      with i j r show ?thesis by simp
    next
      case False
      with i(3) j have "p = d ! j" by simp
      with at_most_one[OF one j(1) i(1), of ] hi False show ?thesis by auto
    qed
  qed
qed

lemma absent_raises:
  assumes n: "160 \<notin> set n" and pre: "\<forall>c\<in>set pre. keeps_out n c"
    and absent: "\<forall>p\<in>set d. \<not> holds_needle n (ptext p)"
  shows "\<exists>m d'. run_calls (pre @ Replace_paragraph_contains n r # post) d = (Raised (ValueError m), d')"
proof -
  obtain out d1 where p: "run_calls pre d = (out, d1)" by (cases "run_calls pre d")
  have "no_new_holder n d d1" using run_calls_no_new_holder[OF pre, of d] p by simp
  from no_new_holder_absent[OF this absent] have "\<forall>p\<in>set d1. \<not> py_in n (ptext p)"
    using py_in_holds[OF n] by blast
  then have own: "replace_paragraph_contains_loop d1 n r = None" by (simp add: rpc_loop_None)
  show ?thesis
  proof (cases out)
    case Returned
    with p own show ?thesis by (simp add: run_calls_append replace_paragraph_contains_def)
  next
    case (Raised e)
    with p run_calls_raises_ValueError[of pre d e d1] show ?thesis
      by (auto simp: run_calls_append)
  qed
qed

lemma main_again_raises_for:
  assumes split: "main_calls = pre @ Replace_paragraph_contains n r # post"
    and pre: "\<forall>c\<in>set pre. keeps_out n c" and post: "\<forall>c\<in>set post. keeps_out n c"
    and r: "\<not> holds_needle n r"
    and n: "160 \<notin> set n" "n \<noteq> []" "hd n \<noteq> 32" "125 \<notin> set n"
      "\<not> py_in n (ascii ''STATE OF {state'')" "\<not> py_in n (ascii ''COUNTY OF {county} )SS.:'')"
    and run: "main doc writable = (Returned, doc', saved)"
    and one: "length (filter (\<lambda>p. holds_needle n (ptext p)) doc) \<le> 1"
  shows "\<exists>m d. main doc' writable' = (Raised (ValueError m), d, [])"
proof -
  from run obtain d3 where calls: "run_calls main_calls doc = (Returned, d3)"
    and doc': "doc' = normalization_scan d3"
    by (auto simp: main_def Let_def split: prod.splits outcome.splits if_splits)
  obtain o1 d1 where p1: "run_calls pre doc = (o1, d1)" by (cases "run_calls pre doc")
  with calls have o1: "o1 = Returned"
    unfolding split by (cases o1) (simp_all add: run_calls_append)
  obtain o2 d2 where p2: "replace_paragraph_contains d1 n r = (o2, d2)"
    by (cases "replace_paragraph_contains d1 n r")
  with calls p1 o1 have o2: "o2 = Returned" and p3: "run_calls post d2 = (Returned, d3)"
    unfolding split by (cases o2; simp add: run_calls_append)+
  have h1: "no_new_holder n doc d1" using run_calls_no_new_holder[OF pre, of doc] p1 by simp
  have "length (filter (\<lambda>p. holds_needle n (ptext p)) d1) \<le> 1"
  proof (rule ccontr)
    assume "\<not> length (filter (\<lambda>p. holds_needle n (ptext p)) d1) \<le> 1"
    then have "2 \<le> length (filter (\<lambda>p. holds_needle n (ptext p)) d1)" by simp
    moreover have "length (filter (\<lambda>p. holds_needle n (ptext p)) d1) \<le>
                   length (filter (\<lambda>p. holds_needle n (ptext p)) doc)"
      using h1 unfolding no_new_holder_def
    proof (induction d1 arbitrary: doc)
      case Nil
      then show ?case by simp
    next
      case (Cons a d1)
      then obtain b doc2 where doc: "doc = b # doc2" by (cases doc) auto
      with Cons.prems have "length d1 = length doc2 \<and>
        (\<forall>j<length doc2. holds_needle n (ptext (d1 ! j)) \<longrightarrow> holds_needle n (ptext (doc2 ! j)))"
        by auto
      from Cons.IH[OF this] Cons.prems doc show ?case by auto
    qed
    ultimately show False using one by simp
  qed
  from own_call_clears[OF n(1) r this] p2 o2
  have "\<forall>p\<in>set d2. \<not> holds_needle n (ptext p)" by simp
  with no_new_holder_absent[OF _ this, of d3] run_calls_no_new_holder[OF post, of d2] p3
  have "\<forall>p\<in>set d3. \<not> holds_needle n (ptext p)" by simp
  with no_new_holder_absent[OF normalization_scan_no_new_holder[OF n(2-6), of d3]] doc'
  have "\<forall>p\<in>set doc'. \<not> holds_needle n (ptext p)" by simp
  from absent_raises[OF n(1) pre this, of r post] obtain m d
    where "run_calls main_calls doc' = (Raised (ValueError m), d)" unfolding split by blast
  then show ?thesis by (simp add: main_def)
qed

lemma not_held:
    "\<not> holds_needle (ascii ''If No Registration'') dam_text"
    "\<not> holds_needle (ascii ''If No Registration'') sire_text"
    "\<not> holds_needle (ascii ''If No Registration'') born_on_text"
    "\<not> holds_needle (ascii ''If No Registration'') signed_on_text"
    "\<not> holds_needle (ascii ''If No Registration'') entered_into_text"
    "\<not> holds_needle (ascii ''If No Registration'') by_and_between_text"
    "\<not> holds_needle (ascii ''If No Registration'') health_guarantee_text"
    "\<not> holds_needle (ascii ''If No Registration'') agreement_dated_text"
    "\<not> holds_needle (ascii ''If No Registration'') full_rights_text"
    "\<not> holds_needle (ascii ''If No Registration'') pet_sale_text"
    "\<not> holds_needle (ascii ''If No Registration'') consideration_text"
    "\<not> holds_needle (ascii ''If No Registration'') purpose_text"
    "\<not> holds_needle (ascii ''If No Registration'') no_registration_text"
    "\<not> holds_needle (ascii ''If No Registration'') notary_text"
    "\<not> holds_needle (ascii ''If No Registration'') buyer_affirms_text"
    "\<not> holds_needle (ascii ''On this _____ day of _________'') dam_text"
    "\<not> holds_needle (ascii ''On this _____ day of _________'') sire_text"
    "\<not> holds_needle (ascii ''On this _____ day of _________'') born_on_text"
    "\<not> holds_needle (ascii ''On this _____ day of _________'') signed_on_text"
    "\<not> holds_needle (ascii ''On this _____ day of _________'') entered_into_text"
    "\<not> holds_needle (ascii ''On this _____ day of _________'') by_and_between_text"
    "\<not> holds_needle (ascii ''On this _____ day of _________'') health_guarantee_text"
    "\<not> holds_needle (ascii ''On this _____ day of _________'') agreement_dated_text"
    "\<not> holds_needle (ascii ''On this _____ day of _________'') full_rights_text"
    "\<not> holds_needle (ascii ''On this _____ day of _________'') pet_sale_text"
    "\<not> holds_needle (ascii ''On this _____ day of _________'') consideration_text"
    "\<not> holds_needle (ascii ''On this _____ day of _________'') purpose_text"
    "\<not> holds_needle (ascii ''On this _____ day of _________'') no_registration_text"
    "\<not> holds_needle (ascii ''On this _____ day of _________'') notary_text"
    "\<not> holds_needle (ascii ''On this _____ day of _________'') buyer_affirms_text"
    "\<not> holds_needle (ascii ''This Agreement is made and entered into this ______ day of'') dam_text"
    "\<not> holds_needle (ascii ''This Agreement is made and entered into this ______ day of'') sire_text"
    "\<not> holds_needle (ascii ''This Agreement is made and entered into this ______ day of'') born_on_text"
    "\<not> holds_needle (ascii ''This Agreement is made and entered into this ______ day of'') signed_on_text"
    "\<not> holds_needle (ascii ''This Agreement is made and entered into this ______ day of'') entered_into_text"
    "\<not> holds_needle (ascii ''This Agreement is made and entered into this ______ day of'') by_and_between_text"
    "\<not> holds_needle (ascii ''This Agreement is made and entered into this ______ day of'') health_guarantee_text"
    "\<not> holds_needle (ascii ''This Agreement is made and entered into this ______ day of'') agreement_dated_text"
    "\<not> holds_needle (ascii ''This Agreement is made and entered into this ______ day of'') full_rights_text"
    "\<not> holds_needle (ascii ''This Agreement is made and entered into this ______ day of'') pet_sale_text"
    "\<not> holds_needle (ascii ''This Agreement is made and entered into this ______ day of'') consideration_text"
    "\<not> holds_needle (ascii ''This Agreement is made and entered into this ______ day of'') purpose_text"
    "\<not> holds_needle (ascii ''This Agreement is made and entered into this ______ day of'') no_registration_text"
    "\<not> holds_needle (ascii ''This Agreement is made and entered into this ______ day of'') notary_text"
    "\<not> holds_needle (ascii ''This Agreement is made and entered into this ______ day of'') buyer_affirms_text"
  by (simp_all add: holds_needle_plain nbsp_free in_no_registration in_notary in_entered_into)

lemma substring_calls_keep_out:
    "keeps_out (ascii ''If No Registration'')
       (Replace_text_in_paragraph (ascii ''State of ________, County of ________'')
          (ascii ''State of {state}, County of {county}''))"
    "keeps_out (ascii ''If No Registration'')
       (Replace_text_in_paragraph (ascii ''State of ___________ County of ____________'')
          (ascii ''State of {state} County of {county}''))"
    "keeps_out (ascii ''If No Registration'')
       (Replace_text_in_paragraph (ascii ''State of (______), County of (_____)'')
          (ascii ''State of ({state}), County of ({county})''))"
    "keeps_out (ascii ''On this _____ day of _________'')
       (Replace_text_in_paragraph (ascii ''State of ________, County of ________'')
          (ascii ''State of {state}, County of {county}''))"
    "keeps_out (ascii ''On this _____ day of _________'')
       (Replace_text_in_paragraph (ascii ''State of ___________ County of ____________'')
          (ascii ''State of {state} County of {county}''))"
    "keeps_out (ascii ''On this _____ day of _________'')
       (Replace_text_in_paragraph (ascii ''State of (______), County of (_____)'')
          (ascii ''State of ({state}), County of ({county})''))"
    "keeps_out (ascii ''This Agreement is made and entered into this ______ day of'')
       (Replace_text_in_paragraph (ascii ''State of ________, County of ________'')
          (ascii ''State of {state}, County of {county}''))"
    "keeps_out (ascii ''This Agreement is made and entered into this ______ day of'')
       (Replace_text_in_paragraph (ascii ''State of ___________ County of ____________'')
          (ascii ''State of {state} County of {county}''))"
    "keeps_out (ascii ''This Agreement is made and entered into this ______ day of'')
       (Replace_text_in_paragraph (ascii ''State of (______), County of (_____)'')
          (ascii ''State of ({state}), County of ({county})''))"
  by (simp_all add: ascii_def)

lemma main_again_raises_no_registration:
  assumes "main doc writable = (Returned, doc', saved)"
    and "length (filter (\<lambda>p. holds_needle (ascii ''If No Registration'') (ptext p)) doc) \<le> 1"
  shows "\<exists>m d. main doc' writable' = (Raised (ValueError m), d, [])"
proof (rule main_again_raises_for[where pre = "take 7 main_calls" and post = "drop 8 main_calls"
      and n = "ascii ''If No Registration''" and r = "no_registration_text", OF _ _ _ _ _ _ _ _ _ _ assms])
  show "main_calls = take 7 main_calls @
      Replace_paragraph_contains (ascii ''If No Registration'') no_registration_text # drop 8 main_calls"
    by (simp add: main_calls_def)
  show "\<forall>c\<in>set (take 7 main_calls). keeps_out (ascii ''If No Registration'') c"
    by (simp add: main_calls_def not_held substring_calls_keep_out del: keeps_out.simps(2))
  show "\<forall>c\<in>set (drop 8 main_calls). keeps_out (ascii ''If No Registration'') c"
    by (simp add: main_calls_def not_held substring_calls_keep_out del: keeps_out.simps(2))
  show "\<not> holds_needle (ascii ''If No Registration'') no_registration_text"
    by (rule not_held)
  show "160 \<notin> set (ascii ''If No Registration'')" "ascii ''If No Registration'' \<noteq> []" "hd (ascii ''If No Registration'') \<noteq> 32" "125 \<notin> set (ascii ''If No Registration'')"
    "\<not> py_in (ascii ''If No Registration'') (ascii ''STATE OF {state'')"
    "\<not> py_in (ascii ''If No Registration'') (ascii ''COUNTY OF {county} )SS.:'')"
    by (simp_all add: ascii_def)
qed

lemma main_again_raises_notary:
  assumes "main doc writable = (Returned, doc', saved)"
    and "length (filter (\<lambda>p. holds_needle (ascii ''On this _____ day of _________'') (ptext p)) doc) \<le> 1"
  shows "\<exists>m d. main doc' writable' = (Raised (ValueError m), d, [])"
proof (rule main_again_raises_for[where pre = "take 14 main_calls" and post = "drop 15 main_calls"
      and n = "ascii ''On this _____ day of _________''" and r = "notary_text", OF _ _ _ _ _ _ _ _ _ _ assms])
  show "main_calls = take 14 main_calls @
      Replace_paragraph_contains (ascii ''On this _____ day of _________'') notary_text # drop 15 main_calls"
    by (simp add: main_calls_def)
  show "\<forall>c\<in>set (take 14 main_calls). keeps_out (ascii ''On this _____ day of _________'') c"
    by (simp add: main_calls_def not_held substring_calls_keep_out del: keeps_out.simps(2))
  show "\<forall>c\<in>set (drop 15 main_calls). keeps_out (ascii ''On this _____ day of _________'') c"
    by (simp add: main_calls_def not_held substring_calls_keep_out del: keeps_out.simps(2))
  show "\<not> holds_needle (ascii ''On this _____ day of _________'') notary_text"
    by (rule not_held)
  show "160 \<notin> set (ascii ''On this _____ day of _________'')" "ascii ''On this _____ day of _________'' \<noteq> []" "hd (ascii ''On this _____ day of _________'') \<noteq> 32" "125 \<notin> set (ascii ''On this _____ day of _________'')"
    "\<not> py_in (ascii ''On this _____ day of _________'') (ascii ''STATE OF {state'')"
    "\<not> py_in (ascii ''On this _____ day of _________'') (ascii ''COUNTY OF {county} )SS.:'')"
    by (simp_all add: ascii_def)
qed

lemma main_again_raises_entered_into:
  assumes "main doc writable = (Returned, doc', saved)"
    and "length (filter (\<lambda>p. holds_needle (ascii ''This Agreement is made and entered into this ______ day of'') (ptext p)) doc) \<le> 1"
  shows "\<exists>m d. main doc' writable' = (Raised (ValueError m), d, [])"
proof (rule main_again_raises_for[where pre = "take 15 main_calls" and post = "drop 16 main_calls"
      and n = "ascii ''This Agreement is made and entered into this ______ day of''" and r = "entered_into_text", OF _ _ _ _ _ _ _ _ _ _ assms])
  show "main_calls = take 15 main_calls @
      Replace_paragraph_contains (ascii ''This Agreement is made and entered into this ______ day of'') entered_into_text # drop 16 main_calls"
    by (simp add: main_calls_def)
  show "\<forall>c\<in>set (take 15 main_calls). keeps_out (ascii ''This Agreement is made and entered into this ______ day of'') c"
    by (simp add: main_calls_def not_held substring_calls_keep_out del: keeps_out.simps(2))
  show "\<forall>c\<in>set (drop 16 main_calls). keeps_out (ascii ''This Agreement is made and entered into this ______ day of'') c"
    by (simp add: main_calls_def not_held substring_calls_keep_out del: keeps_out.simps(2))
  show "\<not> holds_needle (ascii ''This Agreement is made and entered into this ______ day of'') entered_into_text"
    by (rule not_held)
  show "160 \<notin> set (ascii ''This Agreement is made and entered into this ______ day of'')" "ascii ''This Agreement is made and entered into this ______ day of'' \<noteq> []" "hd (ascii ''This Agreement is made and entered into this ______ day of'') \<noteq> 32" "125 \<notin> set (ascii ''This Agreement is made and entered into this ______ day of'')"
    "\<not> py_in (ascii ''This Agreement is made and entered into this ______ day of'') (ascii ''STATE OF {state'')"
    "\<not> py_in (ascii ''This Agreement is made and entered into this ______ day of'') (ascii ''COUNTY OF {county} )SS.:'')"
    by (simp_all add: ascii_def)
qed

text \<open>
  Claim C8, as amended. Of the fifteen whole-paragraph calls, three write a text that does
  not contain the words the call looks for: \<open>If No Registration\<close>,
  \<open>On this _____ day of _________\<close> and
  \<open>This Agreement is made and entered into this ______ day of\<close>. Let a run of \<open>main\<close>
  succeed on a document in which, for one of these three needles, at most one paragraph
  holds it (contains it when non-breaking spaces are read as spaces). Then a second run, on
  the output of the first, raises the \<open>ValueError\<close> of a whole-paragraph call and saves
  nothing: the first run has rewritten the one paragraph that held the needle, and no call
  and no step of the normalization loop brings the needle into a paragraph.
\<close>

theorem main_again_raises:
  "main doc writable = (Returned, doc', saved) \<Longrightarrow>
   n \<in> set [ascii ''If No Registration'',
        ascii ''On this _____ day of _________'',
        ascii ''This Agreement is made and entered into this ______ day of''] \<Longrightarrow>
   length (filter (\<lambda>p. holds_needle n (ptext p)) doc) \<le> 1 \<Longrightarrow>
   \<exists>m d. main doc' writable' = (Raised (ValueError m), d, [])"
  using main_again_raises_no_registration main_again_raises_notary main_again_raises_entered_into
  by auto

theorem main_again_raises_witness:
  "main contract_with_one_repeat True =
    (Returned,
     [\<lparr>pelem = 0, ptext = dam_text\<rparr>,
      \<lparr>pelem = 1, ptext = sire_text\<rparr>,
      \<lparr>pelem = 2, ptext = born_on_text\<rparr>,
      \<lparr>pelem = 3, ptext = signed_on_text\<rparr>,
      \<lparr>pelem = 4, ptext = entered_into_text\<rparr>,
      \<lparr>pelem = 5, ptext = by_and_between_text\<rparr>,
      \<lparr>pelem = 6, ptext = health_guarantee_text\<rparr>,
      \<lparr>pelem = 7, ptext = agreement_dated_text\<rparr>,
      \<lparr>pelem = 8, ptext = full_rights_text\<rparr>,
      \<lparr>pelem = 9, ptext = pet_sale_text\<rparr>,
      \<lparr>pelem = 10, ptext = consideration_text\<rparr>,
      \<lparr>pelem = 11, ptext = purpose_text\<rparr>,
      \<lparr>pelem = 12, ptext = no_registration_text\<rparr>,
      \<lparr>pelem = 13, ptext = ascii ''If No Registration''\<rparr>,
      \<lparr>pelem = 14, ptext = notary_text\<rparr>,
      \<lparr>pelem = 15, ptext = buyer_affirms_text\<rparr>],
     [[\<lparr>pelem = 0, ptext = dam_text\<rparr>,
       \<lparr>pelem = 1, ptext = sire_text\<rparr>,
       \<lparr>pelem = 2, ptext = born_on_text\<rparr>,
       \<lparr>pelem = 3, ptext = signed_on_text\<rparr>,
       \<lparr>pelem = 4, ptext = entered_into_text\<rparr>,
       \<lparr>pelem = 5, ptext = by_and_between_text\<rparr>,
       \<lparr>pelem = 6, ptext = health_guarantee_text\<rparr>,
       \<lparr>pelem = 7, ptext = agreement_dated_text\<rparr>,
       \<lparr>pelem = 8, ptext = full_rights_text\<rparr>,
       \<lparr>pelem = 9, ptext = pet_sale_text\<rparr>,
       \<lparr>pelem = 10, ptext = consideration_text\<rparr>,
       \<lparr>pelem = 11, ptext = purpose_text\<rparr>,
       \<lparr>pelem = 12, ptext = no_registration_text\<rparr>,
       \<lparr>pelem = 13, ptext = ascii ''If No Registration''\<rparr>,
       \<lparr>pelem = 14, ptext = notary_text\<rparr>,
       \<lparr>pelem = 15, ptext = buyer_affirms_text\<rparr>]]) \<and>
   (\<exists>m d. main
     [\<lparr>pelem = 0, ptext = dam_text\<rparr>,
      \<lparr>pelem = 1, ptext = sire_text\<rparr>,
      \<lparr>pelem = 2, ptext = born_on_text\<rparr>,
      \<lparr>pelem = 3, ptext = signed_on_text\<rparr>,
      \<lparr>pelem = 4, ptext = entered_into_text\<rparr>,
      \<lparr>pelem = 5, ptext = by_and_between_text\<rparr>,
      \<lparr>pelem = 6, ptext = health_guarantee_text\<rparr>,
      \<lparr>pelem = 7, ptext = agreement_dated_text\<rparr>,
      \<lparr>pelem = 8, ptext = full_rights_text\<rparr>,
      \<lparr>pelem = 9, ptext = pet_sale_text\<rparr>,
      \<lparr>pelem = 10, ptext = consideration_text\<rparr>,
      \<lparr>pelem = 11, ptext = purpose_text\<rparr>,
      \<lparr>pelem = 12, ptext = no_registration_text\<rparr>,
      \<lparr>pelem = 13, ptext = ascii ''If No Registration''\<rparr>,
      \<lparr>pelem = 14, ptext = notary_text\<rparr>,
      \<lparr>pelem = 15, ptext = buyer_affirms_text\<rparr>] True = (Raised (ValueError m), d, []))"
proof -
  have one: "length (filter (\<lambda>p. holds_needle (ascii ''On this _____ day of _________'') (ptext p))
      contract_with_one_repeat) \<le> 1"
    by (simp add: contract_with_one_repeat_def holds_needle_plain nbsp_free in_notary)
  have n: "ascii ''On this _____ day of _________'' \<in> set [ascii ''If No Registration'',
        ascii ''On this _____ day of _________'',
        ascii ''This Agreement is made and entered into this ______ day of'']"
    by simp
  from main_again_raises[OF main_contract_with_one_repeat n one] main_contract_with_one_repeat
  show ?thesis by blast
qed

text \<open>
  The claim as worded, for every document on which a run succeeds, fails: on a contract
  that has each of the three clauses twice, the first run rewrites the first copy of each,
  and the second run succeeds as well, on the second copies.
\<close>

theorem main_again_counterexample:
  "fst (main contract_with_repeats True) = Returned \<and>
   fst (main (fst (snd (main contract_with_repeats True))) True) = Returned"
  by (simp only: main_contract_with_repeats main_contract_with_repeats_again fst_conv snd_conv simp_thms)

section \<open>A run that raises after rewriting a paragraph\<close>

theorem main_saves_all_or_nothing_witness:
  "main [\<lparr>pelem = 0, ptext = ascii ''This Agreement dated 2024-01-01''\<rparr>] True =
     (Raised (ValueError (ascii ''In Consideration of the total sum'')),
      [\<lparr>pelem = 0, ptext = agreement_dated_text\<rparr>], [])"
proof -
  have dated: "py_in (ascii ''This Agreement dated'') (ascii ''This Agreement dated 2024-01-01'')"
    by (simp only: py_in_ascii literal_eval)
  have "1 < length main_calls \<and>
          main_calls ! 1 =
            Replace_paragraph_contains (ascii ''In Consideration of the total sum'') consideration_text \<and>
          run_calls (take 1 main_calls) [\<lparr>pelem = 0, ptext = ascii ''This Agreement dated 2024-01-01''\<rparr>] =
            (Returned, [\<lparr>pelem = 0, ptext = agreement_dated_text\<rparr>]) \<and>
          (\<forall>p\<in>set [\<lparr>pelem = 0, ptext = agreement_dated_text\<rparr>].
             \<not> py_in (ascii ''In Consideration of the total sum'') (ptext p))"
    by (simp add: main_calls_def replace_paragraph_contains_def dated in_consideration)
  with conjunct1[OF main_saves_all_or_nothing
      [of "[\<lparr>pelem = 0, ptext = ascii ''This Agreement dated 2024-01-01''\<rparr>]" True]]
  show ?thesis by blast
qed

end
